theory Spec2Isabelle
  imports Complex_Main
begin

section \<open>Python values and the operations the script applies to them\<close>

text \<open>
  The script works on whatever \<^verbatim>\<open>r.json()\<close> returns: a Python value built from
  dict, list, str, int, float, bool and None. A dict is kept as the list of its items
  (keys distinct, in insertion order). A str is a list of characters with code points
  below 256. A float is kept by its value; the script never computes with one, it can
  only compare it with \<^verbatim>\<open>True\<close>.
\<close>

datatype json =
    JNull
  | JBool bool
  | JInt int
  | JFloat real
  | JStr string
  | JArr "json list"
  | JObj "(string \<times> json) list"

text \<open>
  The exceptions that can reach one of the script's \<^verbatim>\<open>except:\<close> clauses, or escape.
\<close>

datatype py_error =
    TypeError
  | KeyError
  | AttributeError
  | RequestException string
  | HTTPError int
  | JSONDecodeError

text \<open>\<^verbatim>\<open>v[k]\<close> with a str key: only a dict accepts it, and raises KeyError when k is absent.\<close>

fun subscript :: "json \<Rightarrow> string \<Rightarrow> py_error + json" where
  "subscript (JObj kvs) k = (case map_of kvs k of None \<Rightarrow> Inl KeyError | Some v \<Rightarrow> Inr v)"
| "subscript JNull k = Inl TypeError"
| "subscript (JBool b) k = Inl TypeError"
| "subscript (JInt i) k = Inl TypeError"
| "subscript (JFloat r) k = Inl TypeError"
| "subscript (JStr s) k = Inl TypeError"
| "subscript (JArr xs) k = Inl TypeError"

text \<open>
  \<^verbatim>\<open>for x in v\<close>: a list yields its elements, a dict its keys, a str its characters
  (each a str of length one); anything else is not iterable.
\<close>

fun iter :: "json \<Rightarrow> py_error + json list" where
  "iter (JArr xs) = Inr xs"
| "iter (JObj kvs) = Inr (map (\<lambda>kv. JStr (fst kv)) kvs)"
| "iter (JStr s) = Inr (map (\<lambda>c. JStr [c]) s)"
| "iter JNull = Inl TypeError"
| "iter (JBool b) = Inl TypeError"
| "iter (JInt i) = Inl TypeError"
| "iter (JFloat r) = Inl TypeError"

text \<open>\<^verbatim>\<open>v == True\<close>: bool is a subclass of int, so 1 and 1.0 are equal to True.\<close>

fun eq_True :: "json \<Rightarrow> bool" where
  "eq_True (JBool b) = b"
| "eq_True (JInt i) = (i = 1)"
| "eq_True (JFloat r) = (r = 1)"
| "eq_True JNull = False"
| "eq_True (JStr s) = False"
| "eq_True (JArr xs) = False"
| "eq_True (JObj kvs) = False"

text \<open>\<^verbatim>\<open>v == 'lit'\<close>: only a str can be equal to a str.\<close>

fun eq_str :: "json \<Rightarrow> string \<Rightarrow> bool" where
  "eq_str (JStr s) t = (s = t)"
| "eq_str JNull t = False"
| "eq_str (JBool b) t = False"
| "eq_str (JInt i) t = False"
| "eq_str (JFloat r) t = False"
| "eq_str (JArr xs) t = False"
| "eq_str (JObj kvs) t = False"

text \<open>An operand of \<^verbatim>\<open>+\<close> whose other operand is a str: TypeError unless it is a str.\<close>

fun str_operand :: "json \<Rightarrow> py_error + string" where
  "str_operand (JStr s) = Inr s"
| "str_operand JNull = Inl TypeError"
| "str_operand (JBool b) = Inl TypeError"
| "str_operand (JInt i) = Inl TypeError"
| "str_operand (JFloat r) = Inl TypeError"
| "str_operand (JArr xs) = Inl TypeError"
| "str_operand (JObj kvs) = Inl TypeError"

text \<open>\<^verbatim>\<open>s.replace('\n', '. ')\<close> on a str.\<close>

definition replace_newline :: "string \<Rightarrow> string" where
  "replace_newline s = concat (map (\<lambda>c. if c = CHR 0x0A then ''. '' else [c]) s)"

text \<open>\<^verbatim>\<open>v.replace('\n', '. ')\<close>: only str has the method.\<close>

fun replace_method :: "json \<Rightarrow> py_error + string" where
  "replace_method (JStr s) = Inr (replace_newline s)"
| "replace_method JNull = Inl AttributeError"
| "replace_method (JBool b) = Inl AttributeError"
| "replace_method (JInt i) = Inl AttributeError"
| "replace_method (JFloat r) = Inl AttributeError"
| "replace_method (JArr xs) = Inl AttributeError"
| "replace_method (JObj kvs) = Inl AttributeError"

text \<open>\<^verbatim>\<open>v in d\<close> for a dict d with str keys: an unhashable v (list, dict) raises TypeError.\<close>

fun in_dict :: "json \<Rightarrow> (string \<times> string) list \<Rightarrow> py_error + bool" where
  "in_dict (JStr s) d = Inr (map_of d s \<noteq> None)"
| "in_dict JNull d = Inr False"
| "in_dict (JBool b) d = Inr False"
| "in_dict (JInt i) d = Inr False"
| "in_dict (JFloat r) d = Inr False"
| "in_dict (JArr xs) d = Inl TypeError"
| "in_dict (JObj kvs) d = Inl TypeError"

text \<open>\<^verbatim>\<open>s.lower()\<close> on code points below 256: A-Z and the Latin-1 capitals.\<close>

definition lower_char :: "char \<Rightarrow> char" where
  "lower_char c =
     (let n = (of_char c :: nat)
      in if (65 \<le> n \<and> n \<le> 90) \<or> (192 \<le> n \<and> n \<le> 222 \<and> n \<noteq> 215)
         then char_of (n + 32) else c)"

definition lower :: "string \<Rightarrow> string" where
  "lower s = map lower_char s"

text \<open>\<^verbatim>\<open>s.strip()\<close>: the characters below 256 for which \<^verbatim>\<open>str.isspace\<close> holds.\<close>

definition isspace :: "char \<Rightarrow> bool" where
  "isspace c =
     (let n = (of_char c :: nat)
      in (9 \<le> n \<and> n \<le> 13) \<or> (28 \<le> n \<and> n \<le> 32) \<or> n = 133 \<or> n = 160)"

definition strip :: "string \<Rightarrow> string" where
  "strip s = rev (dropWhile isspace (rev (dropWhile isspace s)))"

text \<open>\<^verbatim>\<open>str(n)\<close> for an int: decimal digits, with a sign when negative.\<close>

fun str_nat :: "nat \<Rightarrow> string" where
  "str_nat n = (if n < 10 then [''0123456789'' ! n]
                else str_nat (n div 10) @ [''0123456789'' ! (n mod 10)])"

definition str_int :: "int \<Rightarrow> string" where
  "str_int i = (if i < 0 then ''-'' @ str_nat (nat (- i)) else str_nat (nat i))"

section \<open>What a run of the script leaves behind\<close>

text \<open>
  Every path of the script ends the process: either \<^verbatim>\<open>print(line); sys.exit(code)\<close>,
  or an exception that nothing catches, on which the interpreter writes a traceback to
  standard error, nothing to standard output, and exits with code 1.
\<close>

datatype outcome = Exit string int | Traceback py_error

fun exit_code :: "outcome \<Rightarrow> int" where
  "exit_code (Exit line code) = code"
| "exit_code (Traceback e) = 1"

fun stdout :: "outcome \<Rightarrow> string" where
  "stdout (Exit line code) = line @ [CHR 0x0A]"
| "stdout (Traceback e) = []"

section \<open>The Startup object and the request\<close>

datatype RequestTypeEnum = GET_REQUEST | POST_REQUEST

record Startup =
  hostname :: string
  user :: "string option"
  secret :: string
  use_ssl :: bool
  verify_cert :: bool
  ignore_dismissed_alerts :: bool
  debug_logging :: bool
  zpool_name :: string
  base_url :: string

definition Startup_init ::
  "string \<Rightarrow> string option \<Rightarrow> string \<Rightarrow> bool \<Rightarrow> bool \<Rightarrow> bool \<Rightarrow> bool \<Rightarrow> string \<Rightarrow> Startup" where
  "Startup_init hostname' user' secret' use_ssl' verify_cert' ignore_dismissed_alerts'
      debug_logging' zpool_name' =
     \<lparr>hostname = hostname', user = user', secret = secret', use_ssl = use_ssl',
      verify_cert = verify_cert', ignore_dismissed_alerts = ignore_dismissed_alerts',
      debug_logging = debug_logging', zpool_name = zpool_name',
      base_url = (if use_ssl' then ''https'' else ''http'') @ ''://'' @ hostname' @ ''/api/v2.0''\<rparr>"

text \<open>
  The network is the \<^verbatim>\<open>requests\<close> library and the server behind it: a function from the
  request the script makes to what comes back. Either the call raises, or there is a
  response with a status code and a body that \<^verbatim>\<open>r.json()\<close> decodes or fails to decode.
\<close>

record http_request =
  request_method :: RequestTypeEnum
  request_url :: string
  auth :: "(string \<times> string) option"
  headers :: "(string \<times> string) list"
  verify :: bool

datatype http_reply = Raises string | Response int "json option"

type_synonym server = "http_request \<Rightarrow> http_reply"

text \<open>
  \<^verbatim>\<open>Response.raise_for_status()\<close> of the library raises HTTPError for a status code from
  400 to 599 and returns otherwise; \<^verbatim>\<open>Response.ok\<close> is true when it does not raise.
\<close>

definition raise_for_status :: "int \<Rightarrow> py_error option" where
  "raise_for_status status = (if 400 \<le> status \<and> status < 600 then Some (HTTPError status) else None)"

definition ok :: "int \<Rightarrow> bool" where
  "ok status = (raise_for_status status = None)"

text \<open>
  The request of \<^verbatim>\<open>do_request\<close>: the URL, and the credentials. A user that is None or
  empty is falsy, and then the secret goes into a bearer header.
\<close>

definition make_request :: "Startup \<Rightarrow> string \<Rightarrow> RequestTypeEnum \<Rightarrow> http_request" where
  "make_request self resource requestType =
     (let request_url' = base_url self @ ''/'' @ resource @ ''/'';
          has_user = (case user self of None \<Rightarrow> False | Some u \<Rightarrow> u \<noteq> []);
          auth' = (if has_user then Some (the (user self), secret self) else None);
          headers' = (if has_user then [] else [(''Authorization'', ''Bearer '' @ secret self)])
      in \<lparr>request_method = requestType, request_url = request_url', auth = auth',
          headers = headers', verify = verify_cert self\<rparr>)"

text \<open>
  \<^verbatim>\<open>do_request\<close>. The text of \<^verbatim>\<open>str(sys.exc_info())\<close> holds the address of a traceback
  object, so it is a parameter \<open>exc\<close>. The branch for a request type that is neither GET
  nor POST cannot be reached with the two-valued enumeration. Left is \<^verbatim>\<open>print\<close> and
  \<^verbatim>\<open>sys.exit\<close> inside the call, which no caller catches.
\<close>

definition do_request ::
  "Startup \<Rightarrow> server \<Rightarrow> (py_error \<Rightarrow> string) \<Rightarrow> string \<Rightarrow> RequestTypeEnum \<Rightarrow> outcome + json" where
  "do_request self srv exc resource requestType =
     (case srv (make_request self resource requestType) of
        Raises detail \<Rightarrow>
          Inl (Exit (''UNKNOWN - request failed - Error when contacting TrueNAS server: ''
                     @ exc (RequestException detail)) 3)
      | Response status body \<Rightarrow>
          (case raise_for_status status of
             Some e \<Rightarrow>
               Inl (Exit (''UNKNOWN - request failed - Error when contacting TrueNAS server: ''
                          @ exc e) 3)
           | None \<Rightarrow>
               if ok status then
                 (case body of
                    None \<Rightarrow>
                      Inl (Exit (''UNKNOWN - json failed to parse - Error when contacting TrueNAS server: ''
                                 @ exc JSONDecodeError) 3)
                  | Some v \<Rightarrow> Inr v)
               else Inr JNull))"

definition get_request :: "Startup \<Rightarrow> server \<Rightarrow> (py_error \<Rightarrow> string) \<Rightarrow> string \<Rightarrow> outcome + json" where
  "get_request self srv exc resource = do_request self srv exc resource GET_REQUEST"

definition post_request :: "Startup \<Rightarrow> server \<Rightarrow> (py_error \<Rightarrow> string) \<Rightarrow> string \<Rightarrow> outcome + json" where
  "post_request self srv exc resource = do_request self srv exc resource POST_REQUEST"

section \<open>check\_update\<close>

definition updateCheckResultDict :: "(string \<times> string) list" where
  "updateCheckResultDict =
     [(''UNAVAILABLE'', ''no update available''),
      (''AVAILABLE'', ''an update is available''),
      (''REBOOT_REQUIRED'', ''an update has already been applied''),
      (''HA_UNAVAILABLE'', ''HA is non-functional'')]"

text \<open>
  Only the read of \<^verbatim>\<open>['status']\<close> and the comparison are inside the \<^verbatim>\<open>try\<close>; the
  membership test, the table lookup and the concatenations that build the line are not,
  so an exception there is not caught.
\<close>

definition check_update :: "Startup \<Rightarrow> server \<Rightarrow> (py_error \<Rightarrow> string) \<Rightarrow> outcome" where
  "check_update self srv exc =
     (case post_request self srv exc ''update/check_available'' of
        Inl out \<Rightarrow> out
      | Inr updateCheckResult \<Rightarrow>
          (case subscript updateCheckResult ''status'' of
             Inl e \<Rightarrow>
               Exit (''UNKNOWN - check_update() - Error when contacting TrueNAS server: '' @ exc e) 3
           | Inr updateCheckResultString \<Rightarrow>
               (let needsUpdateOrOtherPossibleIssue = \<not> eq_str updateCheckResultString ''UNAVAILABLE''
                in if needsUpdateOrOtherPossibleIssue then
                     (case in_dict updateCheckResultString updateCheckResultDict of
                        Inl e \<Rightarrow> Traceback e
                      | Inr True \<Rightarrow>
                          (case str_operand updateCheckResultString of
                             Inl e \<Rightarrow> Traceback e
                           | Inr s \<Rightarrow>
                               (case map_of updateCheckResultDict s of
                                  None \<Rightarrow> Traceback KeyError
                                | Some d \<Rightarrow>
                                    Exit (''WARNING - Update Status: '' @ s @ '' ('' @ d
                                          @ ''). Update may be required. Go to TrueNAS Dashboard -> System -> Update to check for newer version.'') 1))
                      | Inr False \<Rightarrow>
                          (case str_operand updateCheckResultString of
                             Inl e \<Rightarrow> Traceback e
                           | Inr s \<Rightarrow>
                               Exit (''WARNING - Unknown Update Status: '' @ s
                                     @ ''. Update may be required. Go to TrueNAS Dashboard -> System -> Update to check for newer version.'') 1))
                   else
                     (case str_operand updateCheckResultString of
                        Inl e \<Rightarrow> Traceback e
                      | Inr s \<Rightarrow>
                          (case map_of updateCheckResultDict s of
                             None \<Rightarrow> Traceback KeyError
                           | Some d \<Rightarrow> Exit (''OK - Update Status: '' @ s @ '' ('' @ d @ '')'') 0)))))"

section \<open>check\_alerts\<close>

text \<open>The counters and message buffers that check\_alerts and check\_zpool both keep.\<close>

record tally =
  warn :: int
  crit :: int
  critial_messages :: string
  warning_messages :: string

text \<open>
  The condition of the \<^verbatim>\<open>continue\<close>: \<^verbatim>\<open>and\<close> is short-circuit, so
  \<^verbatim>\<open>alert['dismissed']\<close> is read only when dismissed alerts are to be ignored.
\<close>

definition skip_dismissed :: "bool \<Rightarrow> json \<Rightarrow> py_error + bool" where
  "skip_dismissed ignore_dismissed alert =
     (if ignore_dismissed then
        (case subscript alert ''dismissed'' of
           Inl e \<Rightarrow> Inl e
         | Inr d \<Rightarrow> Inr (eq_True d))
      else Inr False)"

text \<open>
  One pass of the loop body. The \<^verbatim>\<open>elif\<close> reads \<^verbatim>\<open>alert['level']\<close> a second time,
  which gives the value of the first read.
\<close>

definition alert_body :: "bool \<Rightarrow> tally \<Rightarrow> json \<Rightarrow> py_error + tally" where
  "alert_body ignore_dismissed t alert =
     (case skip_dismissed ignore_dismissed alert of
        Inl e \<Rightarrow> Inl e
      | Inr True \<Rightarrow> Inr t
      | Inr False \<Rightarrow>
          (case subscript alert ''level'' of
             Inl e \<Rightarrow> Inl e
           | Inr lvl \<Rightarrow>
               if eq_str lvl ''CRITICAL'' then
                 (case subscript alert ''formatted'' of
                    Inl e \<Rightarrow> Inl e
                  | Inr f \<Rightarrow>
                      (case replace_method f of
                         Inl e \<Rightarrow> Inl e
                       | Inr txt \<Rightarrow>
                           Inr (t\<lparr>crit := crit t + 1,
                                  critial_messages := critial_messages t @ ''- (C) '' @ txt @ '' ''\<rparr>)))
               else if eq_str lvl ''WARNING'' then
                 (case subscript alert ''formatted'' of
                    Inl e \<Rightarrow> Inl e
                  | Inr f \<Rightarrow>
                      (case replace_method f of
                         Inl e \<Rightarrow> Inl e
                       | Inr txt \<Rightarrow>
                           Inr (t\<lparr>warn := warn t + 1,
                                  warning_messages := warning_messages t @ ''- (W) '' @ txt @ '' ''\<rparr>)))
               else Inr t))"

fun alerts_loop :: "bool \<Rightarrow> tally \<Rightarrow> json list \<Rightarrow> py_error + tally" where
  "alerts_loop ignore_dismissed t [] = Inr t"
| "alerts_loop ignore_dismissed t (alert # rest) =
     (case alert_body ignore_dismissed t alert of
        Inl e \<Rightarrow> Inl e
      | Inr t' \<Rightarrow> alerts_loop ignore_dismissed t' rest)"

definition alerts_try :: "bool \<Rightarrow> json \<Rightarrow> py_error + tally" where
  "alerts_try ignore_dismissed alerts =
     (case iter alerts of
        Inl e \<Rightarrow> Inl e
      | Inr items \<Rightarrow>
          alerts_loop ignore_dismissed
            \<lparr>warn = 0, crit = 0, critial_messages = [], warning_messages = []\<rparr> items)"

definition check_alerts :: "Startup \<Rightarrow> server \<Rightarrow> (py_error \<Rightarrow> string) \<Rightarrow> outcome" where
  "check_alerts self srv exc =
     (case get_request self srv exc ''alert/list'' of
        Inl out \<Rightarrow> out
      | Inr alerts \<Rightarrow>
          (case alerts_try (ignore_dismissed_alerts self) alerts of
             Inl e \<Rightarrow>
               Exit (''UNKNOWN - check_alerts() - Error when contacting TrueNAS server: '' @ exc e) 3
           | Inr t \<Rightarrow>
               if crit t > 0 then Exit (''CRITICAL '' @ critial_messages t @ warning_messages t) 2
               else if warn t > 0 then Exit (''WARNING '' @ warning_messages t) 1
               else Exit ''OK - No problem alerts'' 0))"

section \<open>check\_repl\<close>

record repl_tally =
  errors :: int
  msg :: string
  replications_examined :: string

definition repl_body :: "repl_tally \<Rightarrow> json \<Rightarrow> py_error + repl_tally" where
  "repl_body t repl =
     (case subscript repl ''name'' of
        Inl e \<Rightarrow> Inl e
      | Inr repl_name \<Rightarrow>
          (case subscript repl ''state'' of
             Inl e \<Rightarrow> Inl e
           | Inr repl_state_obj \<Rightarrow>
               (case subscript repl_state_obj ''state'' of
                  Inl e \<Rightarrow> Inl e
                | Inr repl_state_code \<Rightarrow>
                    (case str_operand repl_name of
                       Inl e \<Rightarrow> Inl e
                     | Inr n \<Rightarrow>
                         (case str_operand repl_state_code of
                            Inl e \<Rightarrow> Inl e
                          | Inr c \<Rightarrow>
                              (let t1 = t\<lparr>replications_examined :=
                                            replications_examined t @ '' '' @ n @ '': '' @ c\<rparr>;
                                   repl_was_not_success = (c \<noteq> ''FINISHED'');
                                   repl_not_running = (c \<noteq> ''RUNNING'')
                               in if repl_was_not_success \<and> repl_not_running
                                  then Inr (t1\<lparr>errors := errors t1 + 1,
                                                msg := msg t1 @ n @ '': '' @ c\<rparr>)
                                  else Inr t1))))))"

fun repl_loop :: "repl_tally \<Rightarrow> json list \<Rightarrow> py_error + repl_tally" where
  "repl_loop t [] = Inr t"
| "repl_loop t (repl # rest) =
     (case repl_body t repl of
        Inl e \<Rightarrow> Inl e
      | Inr t' \<Rightarrow> repl_loop t' rest)"

definition repl_try :: "json \<Rightarrow> py_error + repl_tally" where
  "repl_try repls =
     (case iter repls of
        Inl e \<Rightarrow> Inl e
      | Inr items \<Rightarrow>
          repl_loop \<lparr>errors = 0, msg = [], replications_examined = []\<rparr> items)"

definition check_repl :: "Startup \<Rightarrow> server \<Rightarrow> (py_error \<Rightarrow> string) \<Rightarrow> outcome" where
  "check_repl self srv exc =
     (case get_request self srv exc ''replication'' of
        Inl out \<Rightarrow> out
      | Inr repls \<Rightarrow>
          (case repl_try repls of
             Inl e \<Rightarrow>
               Exit (''UNKNOWN - check_repl() - Error when contacting TrueNAS server: '' @ exc e) 3
           | Inr t \<Rightarrow>
               if errors t > 0 then
                 Exit (''WARNING - There are '' @ str_int (errors t) @ '' replication errors [''
                       @ strip (msg t)
                       @ '']. Go to Storage > Replication Tasks > View Replication Tasks in TrueNAS for more details.'') 1
               else
                 Exit (''OK - No replication errors. Replications examined: ''
                       @ replications_examined t) 0))"

section \<open>check\_zpool\<close>

record zpool_tally = tally +
  zpools_examined :: string
  actual_zpool_count :: int
  all_pool_names :: string

definition zpool_body :: "string \<Rightarrow> zpool_tally \<Rightarrow> json \<Rightarrow> py_error + zpool_tally" where
  "zpool_body zpool_name' t pool =
     (let looking_for_all_pools = (lower zpool_name' = ''all'');
          t1 = t\<lparr>actual_zpool_count := actual_zpool_count t + 1\<rparr>
      in case subscript pool ''name'' of
           Inl e \<Rightarrow> Inl e
         | Inr pool_name \<Rightarrow>
             (case subscript pool ''status'' of
                Inl e \<Rightarrow> Inl e
              | Inr pool_status \<Rightarrow>
                  (case str_operand pool_name of
                     Inl e \<Rightarrow> Inl e
                   | Inr n \<Rightarrow>
                       (let t2 = t1\<lparr>all_pool_names := all_pool_names t1 @ n @ '' ''\<rparr>
                        in if looking_for_all_pools \<or> zpool_name' = n then
                             (let t3 = t2\<lparr>zpools_examined := zpools_examined t2 @ '' '' @ n\<rparr>
                              in if \<not> eq_str pool_status ''ONLINE'' then
                                   (case str_operand pool_status of
                                      Inl e \<Rightarrow> Inl e
                                    | Inr st \<Rightarrow>
                                        Inr (t3\<lparr>crit := crit t3 + 1,
                                                critial_messages := critial_messages t3
                                                  @ ''- (C) ZPool '' @ n @ ''is '' @ st\<rparr>))
                                 else Inr t3)
                           else Inr t2))))"

fun zpool_loop :: "string \<Rightarrow> zpool_tally \<Rightarrow> json list \<Rightarrow> py_error + zpool_tally" where
  "zpool_loop zpool_name' t [] = Inr t"
| "zpool_loop zpool_name' t (pool # rest) =
     (case zpool_body zpool_name' t pool of
        Inl e \<Rightarrow> Inl e
      | Inr t' \<Rightarrow> zpool_loop zpool_name' t' rest)"

definition zpool_try :: "string \<Rightarrow> json \<Rightarrow> py_error + zpool_tally" where
  "zpool_try zpool_name' pool_results =
     (case iter pool_results of
        Inl e \<Rightarrow> Inl e
      | Inr items \<Rightarrow>
          zpool_loop zpool_name'
            \<lparr>warn = 0, crit = 0, critial_messages = [], warning_messages = [],
             zpools_examined = [], actual_zpool_count = 0, all_pool_names = []\<rparr> items)"

text \<open>The two adjustments after the loop, then the verdict.\<close>

definition zpool_verdict :: "string \<Rightarrow> zpool_tally \<Rightarrow> outcome" where
  "zpool_verdict zpool_name' t =
     (let looking_for_all_pools = (lower zpool_name' = ''all'');
          t1 = (if zpools_examined t = [] \<and> actual_zpool_count t = 0 \<and> looking_for_all_pools
                then t\<lparr>zpools_examined := ''(None - No Zpools found)''\<rparr> else t);
          t2 = (if zpools_examined t1 = [] \<and> actual_zpool_count t1 > 0
                   \<and> \<not> looking_for_all_pools \<and> crit t1 = 0
                then t1\<lparr>crit := crit t1 + 1,
                        critial_messages := ''- No Zpools found matching '' @ zpool_name'
                          @ '' out of '' @ str_int (actual_zpool_count t1)
                          @ '' pools ('' @ all_pool_names t1 @ '')''\<rparr>
                else t1)
      in if crit t2 > 0 then Exit (''CRITICAL '' @ critial_messages t2 @ warning_messages t2) 2
         else if warn t2 > 0 then Exit (''WARNING '' @ warning_messages t2) 1
         else Exit (''OK - No problem Zpools. Zpools examined: '' @ zpools_examined t2) 0)"

definition check_zpool :: "Startup \<Rightarrow> server \<Rightarrow> (py_error \<Rightarrow> string) \<Rightarrow> outcome" where
  "check_zpool self srv exc =
     (case get_request self srv exc ''pool'' of
        Inl out \<Rightarrow> out
      | Inr pool_results \<Rightarrow>
          (case zpool_try (zpool_name self) pool_results of
             Inl e \<Rightarrow>
               Exit (''UNKNOWN - check_zpool() - Error when contacting TrueNAS server: '' @ exc e) 3
           | Inr t \<Rightarrow> zpool_verdict (zpool_name self) t))"

section \<open>The dispatcher\<close>

definition handle_requested_alert_type ::
  "Startup \<Rightarrow> server \<Rightarrow> (py_error \<Rightarrow> string) \<Rightarrow> string \<Rightarrow> outcome" where
  "handle_requested_alert_type self srv exc alert_type =
     (if alert_type = ''alerts'' then check_alerts self srv exc
      else if alert_type = ''repl'' then check_repl self srv exc
      else if alert_type = ''update'' then check_update self srv exc
      else if alert_type = ''zpool'' then check_zpool self srv exc
      else Exit (''Unknown type: '' @ alert_type) 3)"

section \<open>The records of the data model, as read from a payload\<close>

text \<open>
  An alert record has a level, a dismissed flag and a formatted text. A JSON value
  carries the record when it is an object with these three fields of these types;
  it may have any other field besides.
\<close>

record AlertRecord =
  level :: string
  dismissed :: bool
  formatted_text :: string

definition is_AlertRecord :: "json \<Rightarrow> AlertRecord \<Rightarrow> bool" where
  "is_AlertRecord j r =
     (subscript j ''level'' = Inr (JStr (level r))
      \<and> subscript j ''dismissed'' = Inr (JBool (dismissed r))
      \<and> subscript j ''formatted'' = Inr (JStr (formatted_text r)))"

text \<open>The records that the \<^verbatim>\<open>continue\<close> does not skip.\<close>

definition counted :: "bool \<Rightarrow> AlertRecord list \<Rightarrow> AlertRecord list" where
  "counted ignore_dismissed rs = filter (\<lambda>r. \<not> (ignore_dismissed \<and> dismissed r)) rs"

text \<open>One fragment for each CRITICAL record, in order; likewise for WARNING.\<close>

definition critical_fragments :: "AlertRecord list \<Rightarrow> string" where
  "critical_fragments rs =
     concat (map (\<lambda>r. ''- (C) '' @ replace_newline (formatted_text r) @ '' '')
                 (filter (\<lambda>r. level r = ''CRITICAL'') rs))"

definition warning_fragments :: "AlertRecord list \<Rightarrow> string" where
  "warning_fragments rs =
     concat (map (\<lambda>r. ''- (W) '' @ replace_newline (formatted_text r) @ '' '')
                 (filter (\<lambda>r. level r = ''WARNING'') rs))"

text \<open>
  A replication record has a name and a state code; in the payload the state code is
  nested: the field \<^verbatim>\<open>state\<close> is an object whose field \<^verbatim>\<open>state\<close> is the code.
\<close>

record ReplicationRecord =
  repl_name :: string
  repl_state_code :: string

definition is_ReplicationRecord :: "json \<Rightarrow> ReplicationRecord \<Rightarrow> bool" where
  "is_ReplicationRecord j r =
     (subscript j ''name'' = Inr (JStr (repl_name r))
      \<and> (case subscript j ''state'' of
            Inl e \<Rightarrow> False
          | Inr obj \<Rightarrow> subscript obj ''state'' = Inr (JStr (repl_state_code r))))"

text \<open>The records whose state code is neither FINISHED nor RUNNING.\<close>

definition problems :: "ReplicationRecord list \<Rightarrow> ReplicationRecord list" where
  "problems rs =
     filter (\<lambda>r. repl_state_code r \<noteq> ''FINISHED'' \<and> repl_state_code r \<noteq> ''RUNNING'') rs"

text \<open>A pool record has a name and a status.\<close>

record PoolRecord =
  pool_name :: string
  pool_status :: string

definition is_PoolRecord :: "json \<Rightarrow> PoolRecord \<Rightarrow> bool" where
  "is_PoolRecord j p =
     (subscript j ''name'' = Inr (JStr (pool_name p))
      \<and> subscript j ''status'' = Inr (JStr (pool_status p)))"

text \<open>
  The relevant pools: all of them when the filter is \<^verbatim>\<open>all\<close> in any letter case, and
  otherwise those whose name is the filter. The faulted ones are those not ONLINE.
\<close>

definition relevant :: "string \<Rightarrow> PoolRecord list \<Rightarrow> PoolRecord list" where
  "relevant pool_filter ps =
     filter (\<lambda>p. lower pool_filter = ''all'' \<or> pool_filter = pool_name p) ps"

definition faulted :: "PoolRecord list \<Rightarrow> PoolRecord list" where
  "faulted ps = filter (\<lambda>p. pool_status p \<noteq> ''ONLINE'') ps"

section \<open>Failures and the printed line\<close>

text \<open>
  The resource and the request type of each check: the first statement of
  check\_alerts, check\_repl, check\_update and check\_zpool.
\<close>

definition route :: "string \<Rightarrow> (string \<times> RequestTypeEnum) option" where
  "route alert_type =
     (if alert_type = ''alerts'' then Some (''alert/list'', GET_REQUEST)
      else if alert_type = ''repl'' then Some (''replication'', GET_REQUEST)
      else if alert_type = ''update'' then Some (''update/check_available'', POST_REQUEST)
      else if alert_type = ''zpool'' then Some (''pool'', GET_REQUEST)
      else None)"

text \<open>
  A transport failure as \<^verbatim>\<open>do_request\<close> sees it: the call raises, the status is one
  for which \<^verbatim>\<open>raise_for_status\<close> raises, or the body does not decode.
\<close>

definition transport_failure :: "http_reply \<Rightarrow> bool" where
  "transport_failure reply =
     (case reply of
        Raises detail \<Rightarrow> True
      | Response status body \<Rightarrow> (400 \<le> status \<and> status < 600) \<or> body = None)"

text \<open>
  The shapes of a payload, read off the JSON value itself. The value of a field of an
  item, when the item is an object that has the field; and whether a value is a string.
\<close>

fun field :: "json \<Rightarrow> string \<Rightarrow> json option" where
  "field (JObj kvs) k = map_of kvs k"
| "field JNull k = None"
| "field (JBool b) k = None"
| "field (JInt i) k = None"
| "field (JFloat r) k = None"
| "field (JStr s) k = None"
| "field (JArr xs) k = None"

fun is_str :: "json \<Rightarrow> bool" where
  "is_str (JStr s) = True"
| "is_str JNull = False"
| "is_str (JBool b) = False"
| "is_str (JInt i) = False"
| "is_str (JFloat r) = False"
| "is_str (JArr xs) = False"
| "is_str (JObj kvs) = False"

definition field_is_str :: "json \<Rightarrow> string \<Rightarrow> bool" where
  "field_is_str x k = (case field x k of None \<Rightarrow> False | Some v \<Rightarrow> is_str v)"

text \<open>
  An alert item is skipped when dismissed alerts are ignored and its dismissed field is
  equal to True. An alert item is malformed for the check when dismissed alerts are
  ignored and it has no dismissed field, or when it is not skipped and has no level, or
  when it is not skipped, its level is CRITICAL or WARNING, and its formatted field is
  absent or not a string. An item that is not an object has no field at all.
\<close>

definition alert_skipped :: "bool \<Rightarrow> json \<Rightarrow> bool" where
  "alert_skipped ignore_dismissed x =
     (ignore_dismissed \<and> (case field x ''dismissed'' of None \<Rightarrow> False | Some d \<Rightarrow> eq_True d))"

definition alert_malformed :: "bool \<Rightarrow> json \<Rightarrow> bool" where
  "alert_malformed ignore_dismissed x =
     ((ignore_dismissed \<and> field x ''dismissed'' = None)
      \<or> (\<not> alert_skipped ignore_dismissed x
          \<and> (field x ''level'' = None
              \<or> ((field x ''level'' = Some (JStr ''CRITICAL'')
                   \<or> field x ''level'' = Some (JStr ''WARNING''))
                  \<and> \<not> field_is_str x ''formatted''))))"

text \<open>
  A replication item is malformed when its name is absent or not a string, or its state
  is absent, or the state has no field state that is a string.
\<close>

definition repl_malformed :: "json \<Rightarrow> bool" where
  "repl_malformed x =
     (\<not> field_is_str x ''name''
      \<or> (case field x ''state'' of
            None \<Rightarrow> True
          | Some obj \<Rightarrow> \<not> field_is_str obj ''state''))"

text \<open>
  A pool item is malformed when its name is absent or not a string, or its status is
  absent, or it is relevant to the filter and its status is not a string.
\<close>

definition pool_malformed :: "string \<Rightarrow> json \<Rightarrow> bool" where
  "pool_malformed pool_filter x =
     (\<not> field_is_str x ''name''
      \<or> field x ''status'' = None
      \<or> ((pool_filter \<in> set [''all'', ''alL'', ''aLl'', ''aLL'', ''All'', ''AlL'', ''ALl'', ''ALL'']
           \<or> field x ''name'' = Some (JStr pool_filter))
          \<and> \<not> field_is_str x ''status''))"

definition item_malformed :: "Startup \<Rightarrow> string \<Rightarrow> json \<Rightarrow> bool" where
  "item_malformed self alert_type x =
     (if alert_type = ''alerts'' then alert_malformed (ignore_dismissed_alerts self) x
      else if alert_type = ''repl'' then repl_malformed x
      else if alert_type = ''zpool'' then pool_malformed (zpool_name self) x
      else False)"

text \<open>
  A list payload is a structural failure when one of its items is malformed. A payload
  that is no list is one when it is null, a boolean, a number, an object that is not
  empty or a string that is not empty.
\<close>

fun list_payload_failure :: "(json \<Rightarrow> bool) \<Rightarrow> json \<Rightarrow> bool" where
  "list_payload_failure malformed (JArr xs) = list_ex malformed xs"
| "list_payload_failure malformed (JObj kvs) = (kvs \<noteq> [])"
| "list_payload_failure malformed (JStr s) = (s \<noteq> [])"
| "list_payload_failure malformed JNull = True"
| "list_payload_failure malformed (JBool b) = True"
| "list_payload_failure malformed (JInt i) = True"
| "list_payload_failure malformed (JFloat r) = True"

text \<open>
  The structural failures of a check: for the update check, a payload that is not an
  object or has no status; for the other checks, those of a list payload.
\<close>

definition structural_failure :: "Startup \<Rightarrow> string \<Rightarrow> json \<Rightarrow> bool" where
  "structural_failure self alert_type payload =
     (if alert_type = ''update'' then field payload ''status'' = None
      else list_payload_failure (item_malformed self alert_type) payload)"

text \<open>
  The first token of what was printed, as a monitoring framework splits it at white
  space, and the four severity words.
\<close>

definition first_token :: "string \<Rightarrow> string" where
  "first_token s = takeWhile (\<lambda>c. \<not> isspace c) (dropWhile isspace s)"

definition severity_words :: "string list" where
  "severity_words = [''OK'', ''WARNING'', ''CRITICAL'', ''UNKNOWN'']"

section \<open>Concrete runs\<close>

text \<open>
  A probe of the host \<^verbatim>\<open>nas\<close> with an API key, a server that answers every request
  with status 200 and a given JSON body, and an exception text that is empty.
\<close>

definition probe :: "bool \<Rightarrow> string \<Rightarrow> Startup" where
  "probe ignore_dismissed pool =
     Startup_init ''nas'' None ''key'' True True ignore_dismissed False pool"

definition answers :: "json \<Rightarrow> server" where
  "answers v = (\<lambda>request. Response 200 (Some v))"

definition no_detail :: "py_error \<Rightarrow> string" where
  "no_detail e = []"

section \<open>The request, when the server answers\<close>

lemma do_request_answers:
  "do_request self (answers v) exc resource requestType = Inr v"
  by (simp add: do_request_def answers_def raise_for_status_def ok_def)

lemma get_request_answers: "get_request self (answers v) exc resource = Inr v"
  by (simp add: get_request_def do_request_answers)

lemma post_request_answers: "post_request self (answers v) exc resource = Inr v"
  by (simp add: post_request_def do_request_answers)

section \<open>Alerts\<close>

lemma alert_body_record:
  assumes "is_AlertRecord x r"
  shows "alert_body ign t x =
     Inr (if ign \<and> dismissed r then t
          else if level r = ''CRITICAL'' then
            t\<lparr>crit := crit t + 1,
              critial_messages := critial_messages t @ ''- (C) ''
                @ replace_newline (formatted_text r) @ '' ''\<rparr>
          else if level r = ''WARNING'' then
            t\<lparr>warn := warn t + 1,
              warning_messages := warning_messages t @ ''- (W) ''
                @ replace_newline (formatted_text r) @ '' ''\<rparr>
          else t)"
  using assms by (simp add: alert_body_def skip_dismissed_def is_AlertRecord_def)

lemma alerts_loop_records:
  assumes "list_all2 is_AlertRecord xs rs"
  shows "alerts_loop ign t xs =
     Inr (t\<lparr>warn := warn t + int (length (filter (\<lambda>r. level r = ''WARNING'') (counted ign rs))),
            crit := crit t + int (length (filter (\<lambda>r. level r = ''CRITICAL'') (counted ign rs))),
            critial_messages := critial_messages t @ critical_fragments (counted ign rs),
            warning_messages := warning_messages t @ warning_fragments (counted ign rs)\<rparr>)"
  using assms
proof (induction xs rs arbitrary: t rule: list_all2_induct)
  case Nil
  show ?case by (simp add: counted_def critical_fragments_def warning_fragments_def)
next
  case (Cons x r xs rs)
  show ?case
    by (simp add: alert_body_record[OF Cons.hyps(1)] Cons.IH counted_def
        critical_fragments_def warning_fragments_def)
qed

lemma alerts_loop_append:
  "alerts_loop ign t (xs @ ys) =
     (case alerts_loop ign t xs of Inl e \<Rightarrow> Inl e | Inr t' \<Rightarrow> alerts_loop ign t' ys)"
  by (induction xs arbitrary: t) (auto split: sum.splits)

text \<open>
  C1. For a payload that is a list of alert records: when a record that is not skipped
  (it is not dismissed, or dismissed alerts are not ignored) has level CRITICAL, the check
  prints CRITICAL and exits with 2, whatever the number of WARNING records, and the line
  is the critical fragments followed by the warning fragments.
\<close>

theorem critical_alert_gives_CRITICAL:
  assumes "get_request self srv exc ''alert/list'' = Inr (JArr xs)"
      and "list_all2 is_AlertRecord xs rs"
      and "\<exists>r \<in> set rs. \<not> (ignore_dismissed_alerts self \<and> dismissed r) \<and> level r = ''CRITICAL''"
  shows "check_alerts self srv exc =
           Exit (''CRITICAL '' @ critical_fragments (counted (ignore_dismissed_alerts self) rs)
                 @ warning_fragments (counted (ignore_dismissed_alerts self) rs)) 2"
proof -
  let ?ign = "ignore_dismissed_alerts self"
  from assms(3) obtain r where "r \<in> set (counted ?ign rs)" and "level r = ''CRITICAL''"
    by (auto simp: counted_def)
  then have "filter (\<lambda>r. level r = ''CRITICAL'') (counted ?ign rs) \<noteq> []"
    by (auto simp: filter_empty_conv)
  then have "0 < length (filter (\<lambda>r. level r = ''CRITICAL'') (counted ?ign rs))"
    by simp
  with assms(1) show ?thesis
    by (simp add: check_alerts_def alerts_try_def alerts_loop_records[OF assms(2)])
qed

theorem critical_alert_gives_CRITICAL_witness:
  "check_alerts (probe False ''all'')
     (answers (JArr [JObj [(''level'', JStr ''WARNING''), (''dismissed'', JBool False), (''formatted'', JStr ''quota'')],
                     JObj [(''level'', JStr ''WARNING''), (''dismissed'', JBool False), (''formatted'', JStr ''scrub'')],
                     JObj [(''level'', JStr ''CRITICAL''), (''dismissed'', JBool True), (''formatted'', JStr ''disk'')]]))
     no_detail
   = Exit ''CRITICAL - (C) disk - (W) quota - (W) scrub '' 2"
proof -
  let ?rs = "[\<lparr>level = ''WARNING'', dismissed = False, formatted_text = ''quota''\<rparr>,
              \<lparr>level = ''WARNING'', dismissed = False, formatted_text = ''scrub''\<rparr>,
              \<lparr>level = ''CRITICAL'', dismissed = True, formatted_text = ''disk''\<rparr>]"
  have records: "list_all2 is_AlertRecord
      [JObj [(''level'', JStr ''WARNING''), (''dismissed'', JBool False), (''formatted'', JStr ''quota'')],
       JObj [(''level'', JStr ''WARNING''), (''dismissed'', JBool False), (''formatted'', JStr ''scrub'')],
       JObj [(''level'', JStr ''CRITICAL''), (''dismissed'', JBool True), (''formatted'', JStr ''disk'')]] ?rs"
    by (simp add: is_AlertRecord_def)
  have some: "\<exists>r \<in> set ?rs. \<not> (ignore_dismissed_alerts (probe False ''all'') \<and> dismissed r)
      \<and> level r = ''CRITICAL''"
    by (simp add: probe_def Startup_init_def)
  show ?thesis
    using critical_alert_gives_CRITICAL [OF get_request_answers records some, of no_detail]
    by (simp add: probe_def Startup_init_def counted_def critical_fragments_def
        warning_fragments_def replace_newline_def)
qed

lemma alert_body_skipped:
  assumes "subscript x ''dismissed'' = Inr d" and "eq_True d"
  shows "alert_body True t x = Inr t"
  using assms by (simp add: alert_body_def skip_dismissed_def)

lemma alerts_loop_skip:
  assumes "subscript x ''dismissed'' = Inr d" and "eq_True d"
  shows "alerts_loop True t (xs @ x # ys) = alerts_loop True t (xs @ ys)"
  by (simp add: alerts_loop_append alert_body_skipped[OF assms] split: sum.splits)

text \<open>
  C2. A dismissed CRITICAL record among alert records. When dismissed alerts are ignored,
  the tally and the outcome are those of the payload without the record. When they are
  not ignored, the record adds one to the critical count and its fragment to the critical
  messages, and the check prints CRITICAL and exits with 2.
\<close>

theorem dismissed_critical_alert:
  assumes "is_AlertRecord x r" and "dismissed r" and "level r = ''CRITICAL''"
      and "list_all2 is_AlertRecord xs rs" and "list_all2 is_AlertRecord ys qs"
      and "get_request self srv exc ''alert/list'' = Inr (JArr (xs @ x # ys))"
      and "get_request self srv' exc ''alert/list'' = Inr (JArr (xs @ ys))"
  shows "(ignore_dismissed_alerts self \<longrightarrow>
            alerts_try True (JArr (xs @ x # ys)) = alerts_try True (JArr (xs @ ys))
            \<and> check_alerts self srv exc = check_alerts self srv' exc)
       \<and> (\<not> ignore_dismissed_alerts self \<longrightarrow>
            alerts_try False (JArr (xs @ ys)) =
              Inr \<lparr>warn = int (length (filter (\<lambda>r. level r = ''WARNING'') (rs @ qs))),
                   crit = int (length (filter (\<lambda>r. level r = ''CRITICAL'') (rs @ qs))),
                   critial_messages = critical_fragments rs @ critical_fragments qs,
                   warning_messages = warning_fragments (rs @ qs)\<rparr>
            \<and> alerts_try False (JArr (xs @ x # ys)) =
              Inr \<lparr>warn = int (length (filter (\<lambda>r. level r = ''WARNING'') (rs @ qs))),
                   crit = int (length (filter (\<lambda>r. level r = ''CRITICAL'') (rs @ qs))) + 1,
                   critial_messages = critical_fragments rs
                     @ (''- (C) '' @ replace_newline (formatted_text r) @ '' '')
                     @ critical_fragments qs,
                   warning_messages = warning_fragments (rs @ qs)\<rparr>
            \<and> check_alerts self srv exc =
              Exit (''CRITICAL '' @ critical_fragments rs
                    @ (''- (C) '' @ replace_newline (formatted_text r) @ '' '')
                    @ critical_fragments qs @ warning_fragments (rs @ qs)) 2)"
proof (intro conjI impI)
  have d: "subscript x ''dismissed'' = Inr (JBool True)"
    using assms(1,2) by (simp add: is_AlertRecord_def)
  show "alerts_try True (JArr (xs @ x # ys)) = alerts_try True (JArr (xs @ ys))"
    using alerts_loop_skip[OF d] by (simp add: alerts_try_def)
  then show "check_alerts self srv exc = check_alerts self srv' exc"
    if "ignore_dismissed_alerts self"
    using that assms(6,7) by (simp add: check_alerts_def)
next
  have without: "list_all2 is_AlertRecord (xs @ ys) (rs @ qs)"
    using assms(4,5) by (rule list_all2_appendI)
  show "alerts_try False (JArr (xs @ ys)) =
      Inr \<lparr>warn = int (length (filter (\<lambda>r. level r = ''WARNING'') (rs @ qs))),
           crit = int (length (filter (\<lambda>r. level r = ''CRITICAL'') (rs @ qs))),
           critial_messages = critical_fragments rs @ critical_fragments qs,
           warning_messages = warning_fragments (rs @ qs)\<rparr>"
    by (simp add: alerts_try_def alerts_loop_records[OF without] counted_def
        critical_fragments_def)
  have "with": "list_all2 is_AlertRecord (xs @ x # ys) (rs @ r # qs)"
    using assms(1,4,5) by (simp add: list_all2_appendI)
  show tally: "alerts_try False (JArr (xs @ x # ys)) =
      Inr \<lparr>warn = int (length (filter (\<lambda>r. level r = ''WARNING'') (rs @ qs))),
           crit = int (length (filter (\<lambda>r. level r = ''CRITICAL'') (rs @ qs))) + 1,
           critial_messages = critical_fragments rs
             @ (''- (C) '' @ replace_newline (formatted_text r) @ '' '')
             @ critical_fragments qs,
           warning_messages = warning_fragments (rs @ qs)\<rparr>"
    using assms(3)
    by (simp add: alerts_try_def alerts_loop_records[OF "with"] counted_def
        critical_fragments_def warning_fragments_def)
  show "check_alerts self srv exc =
      Exit (''CRITICAL '' @ critical_fragments rs
            @ (''- (C) '' @ replace_newline (formatted_text r) @ '' '')
            @ critical_fragments qs @ warning_fragments (rs @ qs)) 2"
    if "\<not> ignore_dismissed_alerts self"
    using that assms(6) tally by (simp add: check_alerts_def)
qed


theorem dismissed_critical_alert_witness:
  "check_alerts (probe True ''all'')
     (answers (JArr [JObj [(''level'', JStr ''WARNING''), (''dismissed'', JBool False), (''formatted'', JStr ''quota'')],
                     JObj [(''level'', JStr ''CRITICAL''), (''dismissed'', JBool True), (''formatted'', JStr ''disk'')],
                     JObj [(''level'', JStr ''INFO''), (''dismissed'', JBool False), (''formatted'', JStr ''boot'')]]))
     no_detail
   = check_alerts (probe True ''all'')
     (answers (JArr [JObj [(''level'', JStr ''WARNING''), (''dismissed'', JBool False), (''formatted'', JStr ''quota'')],
                     JObj [(''level'', JStr ''INFO''), (''dismissed'', JBool False), (''formatted'', JStr ''boot'')]]))
     no_detail
   \<and> check_alerts (probe False ''all'')
     (answers (JArr [JObj [(''level'', JStr ''WARNING''), (''dismissed'', JBool False), (''formatted'', JStr ''quota'')],
                     JObj [(''level'', JStr ''CRITICAL''), (''dismissed'', JBool True), (''formatted'', JStr ''disk'')],
                     JObj [(''level'', JStr ''INFO''), (''dismissed'', JBool False), (''formatted'', JStr ''boot'')]]))
     no_detail
   = Exit ''CRITICAL - (C) disk - (W) quota '' 2"
proof -
  let ?a = "JObj [(''level'', JStr ''WARNING''), (''dismissed'', JBool False), (''formatted'', JStr ''quota'')]"
  let ?x = "JObj [(''level'', JStr ''CRITICAL''), (''dismissed'', JBool True), (''formatted'', JStr ''disk'')]"
  let ?b = "JObj [(''level'', JStr ''INFO''), (''dismissed'', JBool False), (''formatted'', JStr ''boot'')]"
  let ?ra = "\<lparr>level = ''WARNING'', dismissed = False, formatted_text = ''quota''\<rparr>"
  let ?r = "\<lparr>level = ''CRITICAL'', dismissed = True, formatted_text = ''disk''\<rparr>"
  let ?rb = "\<lparr>level = ''INFO'', dismissed = False, formatted_text = ''boot''\<rparr>"
  have x: "is_AlertRecord ?x ?r" and d: "dismissed ?r" and l: "level ?r = ''CRITICAL''"
    by (simp_all add: is_AlertRecord_def)
  have xs: "list_all2 is_AlertRecord [?a] [?ra]" and ys: "list_all2 is_AlertRecord [?b] [?rb]"
    by (simp_all add: is_AlertRecord_def)
  note run = dismissed_critical_alert [OF x d l xs ys get_request_answers get_request_answers,
      where exc = no_detail]
  from run [of "probe True ''all''"] run [of "probe False ''all''"] show ?thesis
    by (simp add: probe_def Startup_init_def critical_fragments_def warning_fragments_def
        replace_newline_def)
qed

section \<open>Replication\<close>

lemma repl_body_record:
  assumes "is_ReplicationRecord x r"
  shows "repl_body t x =
     Inr (if repl_state_code r \<noteq> ''FINISHED'' \<and> repl_state_code r \<noteq> ''RUNNING'' then
            t\<lparr>replications_examined :=
                replications_examined t @ '' '' @ repl_name r @ '': '' @ repl_state_code r,
              errors := errors t + 1,
              msg := msg t @ repl_name r @ '': '' @ repl_state_code r\<rparr>
          else
            t\<lparr>replications_examined :=
                replications_examined t @ '' '' @ repl_name r @ '': '' @ repl_state_code r\<rparr>)"
proof -
  from assms obtain obj where "subscript x ''name'' = Inr (JStr (repl_name r))"
      and "subscript x ''state'' = Inr obj"
      and "subscript obj ''state'' = Inr (JStr (repl_state_code r))"
    by (auto simp: is_ReplicationRecord_def split: sum.splits)
  then show ?thesis
    by (simp add: repl_body_def Let_def)
qed

lemma repl_loop_records:
  assumes "list_all2 is_ReplicationRecord xs rs"
  shows "repl_loop t xs =
     Inr (t\<lparr>errors := errors t + int (length (problems rs)),
            msg := msg t @ concat (map (\<lambda>r. repl_name r @ '': '' @ repl_state_code r) (problems rs)),
            replications_examined := replications_examined t
              @ concat (map (\<lambda>r. '' '' @ repl_name r @ '': '' @ repl_state_code r) rs)\<rparr>)"
  using assms
proof (induction xs rs arbitrary: t rule: list_all2_induct)
  case Nil
  show ?case by (simp add: problems_def)
next
  case (Cons x r xs rs)
  show ?case
    by (simp add: repl_body_record[OF Cons.hyps(1)] Cons.IH problems_def)
qed

text \<open>
  C6. For a payload that is a list of replication records, the problems are the records
  whose nested state code is neither FINISHED nor RUNNING. With at least one problem the
  check prints WARNING with the number of problems and one fragment (name, colon, state
  code) for each, and exits with 1; with none it prints OK with every name and state code,
  and exits with 0.
\<close>

theorem replication_classified:
  assumes "get_request self srv exc ''replication'' = Inr (JArr xs)"
      and "list_all2 is_ReplicationRecord xs rs"
  shows "check_repl self srv exc =
     (if 0 < length (filter (\<lambda>r. repl_state_code r \<noteq> ''FINISHED''
                                    \<and> repl_state_code r \<noteq> ''RUNNING'') rs)
      then Exit (''WARNING - There are ''
                 @ str_int (int (length (filter (\<lambda>r. repl_state_code r \<noteq> ''FINISHED''
                                                       \<and> repl_state_code r \<noteq> ''RUNNING'') rs)))
                 @ '' replication errors [''
                 @ strip (concat (map (\<lambda>r. repl_name r @ '': '' @ repl_state_code r)
                                      (filter (\<lambda>r. repl_state_code r \<noteq> ''FINISHED''
                                                    \<and> repl_state_code r \<noteq> ''RUNNING'') rs)))
                 @ '']. Go to Storage > Replication Tasks > View Replication Tasks in TrueNAS for more details.'') 1
      else Exit (''OK - No replication errors. Replications examined: ''
                 @ concat (map (\<lambda>r. '' '' @ repl_name r @ '': '' @ repl_state_code r) rs)) 0)"
  using assms(1)
  by (simp add: check_repl_def repl_try_def repl_loop_records[OF assms(2)] problems_def)

theorem replication_classified_witness:
  "check_repl (probe False ''all'')
     (answers (JArr [JObj [(''name'', JStr ''r1''), (''state'', JObj [(''state'', JStr ''RUNNING'')])],
                     JObj [(''name'', JStr ''r2''), (''state'', JObj [(''state'', JStr ''ERROR'')])]]))
     no_detail
   = Exit ''WARNING - There are 1 replication errors [r2: ERROR]. Go to Storage > Replication Tasks > View Replication Tasks in TrueNAS for more details.'' 1
   \<and> check_repl (probe False ''all'')
     (answers (JArr [JObj [(''name'', JStr ''r1''), (''state'', JObj [(''state'', JStr ''RUNNING'')])],
                     JObj [(''name'', JStr ''r3''), (''state'', JObj [(''state'', JStr ''FINISHED'')])]]))
     no_detail
   = Exit ''OK - No replication errors. Replications examined:  r1: RUNNING r3: FINISHED'' 0"
proof -
  have bad: "list_all2 is_ReplicationRecord
      [JObj [(''name'', JStr ''r1''), (''state'', JObj [(''state'', JStr ''RUNNING'')])],
       JObj [(''name'', JStr ''r2''), (''state'', JObj [(''state'', JStr ''ERROR'')])]]
      [\<lparr>repl_name = ''r1'', repl_state_code = ''RUNNING''\<rparr>,
       \<lparr>repl_name = ''r2'', repl_state_code = ''ERROR''\<rparr>]"
    by (simp add: is_ReplicationRecord_def)
  have good: "list_all2 is_ReplicationRecord
      [JObj [(''name'', JStr ''r1''), (''state'', JObj [(''state'', JStr ''RUNNING'')])],
       JObj [(''name'', JStr ''r3''), (''state'', JObj [(''state'', JStr ''FINISHED'')])]]
      [\<lparr>repl_name = ''r1'', repl_state_code = ''RUNNING''\<rparr>,
       \<lparr>repl_name = ''r3'', repl_state_code = ''FINISHED''\<rparr>]"
    by (simp add: is_ReplicationRecord_def)
  from replication_classified [OF get_request_answers bad, of "probe False ''all''" no_detail]
       replication_classified [OF get_request_answers good, of "probe False ''all''" no_detail]
  show ?thesis
    by (simp add: str_int_def strip_def isspace_def)
qed

section \<open>Update\<close>



section \<open>Pools\<close>

lemma zpool_body_record:
  assumes "is_PoolRecord x p"
  shows "zpool_body f t x =
     Inr (if lower f = ''all'' \<or> f = pool_name p then
            if pool_status p \<noteq> ''ONLINE'' then
              t\<lparr>actual_zpool_count := actual_zpool_count t + 1,
                all_pool_names := all_pool_names t @ pool_name p @ '' '',
                zpools_examined := zpools_examined t @ '' '' @ pool_name p,
                crit := crit t + 1,
                critial_messages := critial_messages t @ ''- (C) ZPool '' @ pool_name p
                  @ ''is '' @ pool_status p\<rparr>
            else
              t\<lparr>actual_zpool_count := actual_zpool_count t + 1,
                all_pool_names := all_pool_names t @ pool_name p @ '' '',
                zpools_examined := zpools_examined t @ '' '' @ pool_name p\<rparr>
          else
            t\<lparr>actual_zpool_count := actual_zpool_count t + 1,
              all_pool_names := all_pool_names t @ pool_name p @ '' ''\<rparr>)"
  using assms by (simp add: zpool_body_def is_PoolRecord_def Let_def)

lemma zpool_loop_records:
  assumes "list_all2 is_PoolRecord xs ps"
  shows "zpool_loop f t xs =
     Inr (t\<lparr>actual_zpool_count := actual_zpool_count t + int (length ps),
            all_pool_names := all_pool_names t @ concat (map (\<lambda>p. pool_name p @ '' '') ps),
            zpools_examined := zpools_examined t
              @ concat (map (\<lambda>p. '' '' @ pool_name p) (relevant f ps)),
            crit := crit t + int (length (faulted (relevant f ps))),
            critial_messages := critial_messages t
              @ concat (map (\<lambda>p. ''- (C) ZPool '' @ pool_name p @ ''is '' @ pool_status p)
                            (faulted (relevant f ps)))\<rparr>)"
  using assms
proof (induction xs ps arbitrary: t rule: list_all2_induct)
  case Nil
  show ?case by (simp add: relevant_def faulted_def)
next
  case (Cons x p xs ps)
  show ?case
    by (simp add: zpool_body_record[OF Cons.hyps(1)] Cons.IH relevant_def faulted_def)
qed

lemma examined_empty: "(concat (map (\<lambda>p. '' '' @ pool_name p) qs) = []) = (qs = [])"
  by (cases qs) simp_all

lemma zpool_try_records:
  assumes "list_all2 is_PoolRecord xs ps"
  shows "zpool_try f (JArr xs) =
     Inr \<lparr>warn = 0,
          crit = int (length (faulted (relevant f ps))),
          critial_messages =
            concat (map (\<lambda>p. ''- (C) ZPool '' @ pool_name p @ ''is '' @ pool_status p)
                        (faulted (relevant f ps))),
          warning_messages = [],
          zpools_examined = concat (map (\<lambda>p. '' '' @ pool_name p) (relevant f ps)),
          actual_zpool_count = int (length ps),
          all_pool_names = concat (map (\<lambda>p. pool_name p @ '' '') ps)\<rparr>"
  by (simp add: zpool_try_def zpool_loop_records[OF assms])


lemma of_char_lower_char:
  "(of_char (lower_char c) :: nat) =
     (if (65 \<le> (of_char c :: nat) \<and> (of_char c :: nat) \<le> 90)
         \<or> (192 \<le> (of_char c :: nat) \<and> (of_char c :: nat) \<le> 222 \<and> (of_char c :: nat) \<noteq> 215)
      then of_char c + 32 else of_char c)"
  by (auto simp: lower_char_def Let_def)

lemma lower_char_a: "(lower_char c = CHR ''a'') = (c = CHR ''a'' \<or> c = CHR ''A'')"
proof -
  have "(lower_char c = CHR ''a'') = ((of_char (lower_char c) :: nat) = of_char (CHR ''a''))"
    by (simp only: of_char_eq_iff)
  also have "\<dots> = ((of_char c :: nat) = 97 \<or> (of_char c :: nat) = 65)"
    by (auto simp: of_char_lower_char)
  also have "\<dots> = ((of_char c :: nat) = of_char (CHR ''a'') \<or> (of_char c :: nat) = of_char (CHR ''A''))"
    by simp
  also have "\<dots> = (c = CHR ''a'' \<or> c = CHR ''A'')"
    by (simp only: of_char_eq_iff)
  finally show ?thesis .
qed

lemma lower_char_l: "(lower_char c = CHR ''l'') = (c = CHR ''l'' \<or> c = CHR ''L'')"
proof -
  have "(lower_char c = CHR ''l'') = ((of_char (lower_char c) :: nat) = of_char (CHR ''l''))"
    by (simp only: of_char_eq_iff)
  also have "\<dots> = ((of_char c :: nat) = 108 \<or> (of_char c :: nat) = 76)"
    by (auto simp: of_char_lower_char)
  also have "\<dots> = ((of_char c :: nat) = of_char (CHR ''l'') \<or> (of_char c :: nat) = of_char (CHR ''L''))"
    by simp
  also have "\<dots> = (c = CHR ''l'' \<or> c = CHR ''L'')"
    by (simp only: of_char_eq_iff)
  finally show ?thesis .
qed

text \<open>
  The filters that \<^verbatim>\<open>.lower() == 'all'\<close> accepts are the eight spellings of
  \<^verbatim>\<open>all\<close> in upper and lower case, and no other string.
\<close>

lemma lower_is_all:
  "(lower f = ''all'') =
     (f \<in> set [''all'', ''alL'', ''aLl'', ''aLL'', ''All'', ''AlL'', ''ALl'', ''ALL''])"
proof
  assume "lower f = ''all''"
  then obtain c1 c2 c3 where f: "f = [c1, c2, c3]"
    and "lower_char c1 = CHR ''a''" "lower_char c2 = CHR ''l''" "lower_char c3 = CHR ''l''"
    by (auto simp: lower_def map_eq_Cons_conv)
  then show "f \<in> set [''all'', ''alL'', ''aLl'', ''aLL'', ''All'', ''AlL'', ''ALl'', ''ALL'']"
    by (auto simp: lower_char_a lower_char_l)
next
  assume "f \<in> set [''all'', ''alL'', ''aLl'', ''aLL'', ''All'', ''AlL'', ''ALl'', ''ALL'']"
  then show "lower f = ''all''"
    by (auto simp: lower_def lower_char_a lower_char_l)
qed

lemma lower_all_literals: "lower ''all'' = ''all''" "lower ''ALL'' = ''all''" "lower ''All'' = ''all''"
  "lower ''tank'' = ''tank''" "lower ''backup'' = ''backup''"
  by code_simp+

text \<open>
  C3. With the filter \<^verbatim>\<open>all\<close> (in any letter case) and an empty pool list, the check
  prints OK, saying that no Zpools were found, and exits with 0.
\<close>

theorem all_filter_no_pools_is_OK:
  assumes "lower (zpool_name self) = ''all''"
      and "get_request self srv exc ''pool'' = Inr (JArr [])"
  shows "check_zpool self srv exc =
           Exit ''OK - No problem Zpools. Zpools examined: (None - No Zpools found)'' 0"
  using assms by (simp add: check_zpool_def zpool_try_def zpool_verdict_def)

theorem all_filter_no_pools_is_OK_witness:
  "check_zpool (probe False ''ALL'') (answers (JArr [])) no_detail =
     Exit ''OK - No problem Zpools. Zpools examined: (None - No Zpools found)'' 0"
proof -
  have "lower (zpool_name (probe False ''ALL'')) = ''all''"
    by (simp add: probe_def Startup_init_def lower_all_literals)
  from all_filter_no_pools_is_OK [OF this get_request_answers] show ?thesis .
qed

text \<open>
  C10. With a filter that is a name and an empty pool list, the check prints OK with an
  empty list of examined pools and exits with 0: the branch for a name that matches
  nothing also asks for a positive pool count.
\<close>

theorem named_filter_no_pools_is_OK:
  assumes "lower (zpool_name self) \<noteq> ''all''"
      and "get_request self srv exc ''pool'' = Inr (JArr [])"
  shows "check_zpool self srv exc = Exit ''OK - No problem Zpools. Zpools examined: '' 0"
  using assms by (simp add: check_zpool_def zpool_try_def zpool_verdict_def)

theorem named_filter_no_pools_is_OK_witness:
  "check_zpool (probe False ''backup'') (answers (JArr [])) no_detail =
     Exit ''OK - No problem Zpools. Zpools examined: '' 0"
proof -
  have "lower (zpool_name (probe False ''backup'')) \<noteq> ''all''"
    by (simp add: probe_def Startup_init_def lower_all_literals)
  from named_filter_no_pools_is_OK [OF this get_request_answers] show ?thesis .
qed

text \<open>
  C4, as stated, fails on the empty pool list: no pool has the name, and the check
  prints OK.
\<close>

theorem named_filter_miss_counterexample:
  "lower ''tank'' \<noteq> ''all''
   \<and> check_zpool (probe False ''tank'') (answers (JArr [])) no_detail =
       Exit ''OK - No problem Zpools. Zpools examined: '' 0"
  by (simp add: lower_all_literals check_zpool_def get_request_answers zpool_try_def
      zpool_verdict_def probe_def Startup_init_def)

text \<open>
  C4, amended. With a filter that is a name, and a list of pool records that is not empty
  and in which no pool has that name, the check prints CRITICAL with the filter, the
  number of pools and the names of all pools, and exits with 2.
\<close>

theorem named_filter_miss_is_CRITICAL:
  assumes "lower (zpool_name self) \<noteq> ''all''"
      and "get_request self srv exc ''pool'' = Inr (JArr xs)"
      and "list_all2 is_PoolRecord xs ps"
      and "ps \<noteq> []"
      and "\<forall>p \<in> set ps. pool_name p \<noteq> zpool_name self"
  shows "check_zpool self srv exc =
           Exit (''CRITICAL - No Zpools found matching '' @ zpool_name self
                 @ '' out of '' @ str_int (int (length ps))
                 @ '' pools ('' @ concat (map (\<lambda>p. pool_name p @ '' '') ps) @ '')'') 2"
proof -
  have "relevant (zpool_name self) ps = []"
    using assms(1,5) by (auto simp: relevant_def filter_empty_conv)
  then show ?thesis
    using assms(1,2,4)
    by (simp add: check_zpool_def zpool_try_records[OF assms(3)] zpool_verdict_def faulted_def)
qed

theorem named_filter_miss_is_CRITICAL_witness:
  "check_zpool (probe False ''tank'')
     (answers (JArr [JObj [(''name'', JStr ''rpool''), (''status'', JStr ''ONLINE'')]])) no_detail =
     Exit ''CRITICAL - No Zpools found matching tank out of 1 pools (rpool )'' 2"
proof -
  have f: "lower (zpool_name (probe False ''tank'')) \<noteq> ''all''"
    by (simp add: probe_def Startup_init_def lower_all_literals)
  have ps: "list_all2 is_PoolRecord [JObj [(''name'', JStr ''rpool''), (''status'', JStr ''ONLINE'')]]
      [\<lparr>pool_name = ''rpool'', pool_status = ''ONLINE''\<rparr>]"
    by (simp add: is_PoolRecord_def)
  have ne: "[\<lparr>pool_name = ''rpool'', pool_status = ''ONLINE''\<rparr>] \<noteq> []"
    by simp
  have miss: "\<forall>p \<in> set [\<lparr>pool_name = ''rpool'', pool_status = ''ONLINE''\<rparr>].
      pool_name p \<noteq> zpool_name (probe False ''tank'')"
    by (simp add: probe_def Startup_init_def)
  from named_filter_miss_is_CRITICAL [OF f get_request_answers ps ne miss, of no_detail]
  show ?thesis
    by (simp add: probe_def Startup_init_def str_int_def)
qed

text \<open>
  C5. For a payload that is a list of pool records: a pool is relevant when the filter is
  one of the eight spellings of \<^verbatim>\<open>all\<close> in upper and lower case, or is equal to the
  name of the pool, letter case included. The loop runs over the whole list;
  each relevant pool whose status is not ONLINE adds one to the critical count and one
  fragment with its name and status, and a relevant pool that is ONLINE adds its name to
  the examined pools only. With a faulted relevant pool the check prints CRITICAL with
  these fragments and exits with 2.
\<close>

theorem faulted_pools_reported:
  assumes "get_request self srv exc ''pool'' = Inr (JArr xs)"
      and "list_all2 is_PoolRecord xs ps"
  shows "relevant (zpool_name self) ps =
           filter (\<lambda>p. zpool_name self \<in> set [''all'', ''alL'', ''aLl'', ''aLL'',
                                                 ''All'', ''AlL'', ''ALl'', ''ALL'']
                        \<or> zpool_name self = pool_name p) ps
       \<and> zpool_try (zpool_name self) (JArr xs) =
           Inr \<lparr>warn = 0,
                crit = int (length (faulted (relevant (zpool_name self) ps))),
                critial_messages =
                  concat (map (\<lambda>p. ''- (C) ZPool '' @ pool_name p @ ''is '' @ pool_status p)
                              (filter (\<lambda>p. pool_status p \<noteq> ''ONLINE'')
                                      (relevant (zpool_name self) ps))),
                warning_messages = [],
                zpools_examined =
                  concat (map (\<lambda>p. '' '' @ pool_name p) (relevant (zpool_name self) ps)),
                actual_zpool_count = int (length ps),
                all_pool_names = concat (map (\<lambda>p. pool_name p @ '' '') ps)\<rparr>
       \<and> (faulted (relevant (zpool_name self) ps) \<noteq> [] \<longrightarrow>
            check_zpool self srv exc =
              Exit (''CRITICAL ''
                    @ concat (map (\<lambda>p. ''- (C) ZPool '' @ pool_name p @ ''is '' @ pool_status p)
                                  (filter (\<lambda>p. pool_status p \<noteq> ''ONLINE'')
                                          (relevant (zpool_name self) ps)))) 2)
       \<and> (faulted (relevant (zpool_name self) ps) = [] \<and> relevant (zpool_name self) ps \<noteq> [] \<longrightarrow>
            check_zpool self srv exc =
              Exit (''OK - No problem Zpools. Zpools examined: ''
                    @ concat (map (\<lambda>p. '' '' @ pool_name p) (relevant (zpool_name self) ps))) 0)"
proof (intro conjI impI)
  show "relevant (zpool_name self) ps =
      filter (\<lambda>p. zpool_name self \<in> set [''all'', ''alL'', ''aLl'', ''aLL'',
                                            ''All'', ''AlL'', ''ALl'', ''ALL'']
                   \<or> zpool_name self = pool_name p) ps"
    unfolding relevant_def lower_is_all ..
  show "zpool_try (zpool_name self) (JArr xs) =
      Inr \<lparr>warn = 0,
           crit = int (length (faulted (relevant (zpool_name self) ps))),
           critial_messages =
             concat (map (\<lambda>p. ''- (C) ZPool '' @ pool_name p @ ''is '' @ pool_status p)
                         (filter (\<lambda>p. pool_status p \<noteq> ''ONLINE'')
                                 (relevant (zpool_name self) ps))),
           warning_messages = [],
           zpools_examined =
             concat (map (\<lambda>p. '' '' @ pool_name p) (relevant (zpool_name self) ps)),
           actual_zpool_count = int (length ps),
           all_pool_names = concat (map (\<lambda>p. pool_name p @ '' '') ps)\<rparr>"
    by (simp add: zpool_try_records[OF assms(2)] faulted_def)
  show "check_zpool self srv exc =
      Exit (''CRITICAL ''
            @ concat (map (\<lambda>p. ''- (C) ZPool '' @ pool_name p @ ''is '' @ pool_status p)
                          (filter (\<lambda>p. pool_status p \<noteq> ''ONLINE'')
                                  (relevant (zpool_name self) ps)))) 2"
    if "faulted (relevant (zpool_name self) ps) \<noteq> []"
  proof -
    from that have "relevant (zpool_name self) ps \<noteq> []"
      by (auto simp: faulted_def)
    with that assms(1) show ?thesis
      by (simp add: check_zpool_def zpool_try_records[OF assms(2)] zpool_verdict_def
          examined_empty faulted_def)
  qed
  show "check_zpool self srv exc =
      Exit (''OK - No problem Zpools. Zpools examined: ''
            @ concat (map (\<lambda>p. '' '' @ pool_name p) (relevant (zpool_name self) ps))) 0"
    if "faulted (relevant (zpool_name self) ps) = [] \<and> relevant (zpool_name self) ps \<noteq> []"
    using that assms(1)
    by (simp add: check_zpool_def zpool_try_records[OF assms(2)] zpool_verdict_def
        examined_empty)
qed

theorem faulted_pools_reported_witness:
  "check_zpool (probe False ''aLl'')
     (answers (JArr [JObj [(''name'', JStr ''tank''), (''status'', JStr ''ONLINE'')],
                     JObj [(''name'', JStr ''backup''), (''status'', JStr ''DEGRADED'')],
                     JObj [(''name'', JStr ''scratch''), (''status'', JStr ''FAULTED'')]])) no_detail =
     Exit ''CRITICAL - (C) ZPool backupis DEGRADED- (C) ZPool scratchis FAULTED'' 2
   \<and> check_zpool (probe False ''tank'')
     (answers (JArr [JObj [(''name'', JStr ''tank''), (''status'', JStr ''ONLINE'')],
                     JObj [(''name'', JStr ''backup''), (''status'', JStr ''DEGRADED'')],
                     JObj [(''name'', JStr ''scratch''), (''status'', JStr ''FAULTED'')]])) no_detail =
     Exit ''OK - No problem Zpools. Zpools examined:  tank'' 0"
proof -
  have ps: "list_all2 is_PoolRecord
      [JObj [(''name'', JStr ''tank''), (''status'', JStr ''ONLINE'')],
       JObj [(''name'', JStr ''backup''), (''status'', JStr ''DEGRADED'')],
       JObj [(''name'', JStr ''scratch''), (''status'', JStr ''FAULTED'')]]
      [\<lparr>pool_name = ''tank'', pool_status = ''ONLINE''\<rparr>,
       \<lparr>pool_name = ''backup'', pool_status = ''DEGRADED''\<rparr>,
       \<lparr>pool_name = ''scratch'', pool_status = ''FAULTED''\<rparr>]"
    by (simp add: is_PoolRecord_def)
  from faulted_pools_reported [OF get_request_answers ps, of "probe False ''aLl''" no_detail]
       faulted_pools_reported [OF get_request_answers ps, of "probe False ''tank''" no_detail]
  show ?thesis
    by (simp add: probe_def Startup_init_def relevant_def faulted_def lower_is_all)
qed

section \<open>Transport and structural failures\<close>

text \<open>
  Each loop body raises on an item exactly when the item is malformed for its check,
  whatever the tally is; so a loop raises exactly when one of its items is malformed.
\<close>

lemma subscript_field:
  "subscript x k = Inr v \<longleftrightarrow> field x k = Some v"
  "isl (subscript x k) \<longleftrightarrow> field x k = None"
  by (cases x; simp split: option.splits)+

lemma subscript_cases:
  obtains e where "subscript x k = Inl e" "field x k = None"
    | v where "subscript x k = Inr v" "field x k = Some v"
  by (cases x; auto split: option.splits)

lemma str_operand_is_str: "isl (str_operand v) \<longleftrightarrow> \<not> is_str v"
  by (cases v) simp_all

lemma replace_method_is_str: "isl (replace_method v) \<longleftrightarrow> \<not> is_str v"
  by (cases v) simp_all

lemma eq_str_is_str: "eq_str v s \<longleftrightarrow> v = JStr s"
  by (cases v) auto

lemma alert_body_raises: "isl (alert_body ign t x) \<longleftrightarrow> alert_malformed ign x"
proof (cases ign)
  case False
  show ?thesis
  proof (cases x "''level''" rule: subscript_cases)
    case (1 e)
    with False show ?thesis
      by (simp add: alert_body_def skip_dismissed_def alert_malformed_def alert_skipped_def)
  next
    case (2 lvl)
    show ?thesis
    proof (cases x "''formatted''" rule: subscript_cases)
      case (1 e)
      with False 2 show ?thesis
        by (auto simp: alert_body_def skip_dismissed_def alert_malformed_def alert_skipped_def
            field_is_str_def eq_str_is_str)
    next
      case f: (2 fmt)
      with False 2 replace_method_is_str[of fmt] show ?thesis
        by (cases "replace_method fmt")
          (auto simp: alert_body_def skip_dismissed_def alert_malformed_def alert_skipped_def
            field_is_str_def eq_str_is_str)
    qed
  qed
next
  case True
  show ?thesis
  proof (cases x "''dismissed''" rule: subscript_cases)
    case (1 e)
    with True show ?thesis
      by (simp add: alert_body_def skip_dismissed_def alert_malformed_def)
  next
    case d: (2 dis)
    show ?thesis
    proof (cases "eq_True dis")
      case skipped: True
      with True d show ?thesis
        by (simp add: alert_body_def skip_dismissed_def alert_malformed_def alert_skipped_def)
    next
      case counted: False
      show ?thesis
      proof (cases x "''level''" rule: subscript_cases)
        case (1 e)
        with True d counted show ?thesis
          by (simp add: alert_body_def skip_dismissed_def alert_malformed_def alert_skipped_def)
      next
        case (2 lvl)
        show ?thesis
        proof (cases x "''formatted''" rule: subscript_cases)
          case (1 e)
          with True d counted 2 show ?thesis
            by (auto simp: alert_body_def skip_dismissed_def alert_malformed_def
                alert_skipped_def field_is_str_def eq_str_is_str)
        next
          case f: (2 fmt)
          with True d counted 2 replace_method_is_str[of fmt] show ?thesis
            by (cases "replace_method fmt")
              (auto simp: alert_body_def skip_dismissed_def alert_malformed_def
                alert_skipped_def field_is_str_def eq_str_is_str)
        qed
      qed
    qed
  qed
qed


lemma alerts_loop_raises: "isl (alerts_loop ign t xs) \<longleftrightarrow> list_ex (alert_malformed ign) xs"
proof (induction xs arbitrary: t)
  case Nil
  show ?case by simp
next
  case (Cons x xs)
  show ?case
  proof (cases "alert_body ign t x")
    case (Inl e)
    with alert_body_raises[of ign t x] show ?thesis by simp
  next
    case (Inr t')
    with alert_body_raises[of ign t x] Cons.IH[of t'] show ?thesis by simp
  qed
qed

lemma strings_raise_in_alerts: "alert_malformed ign (JStr k)"
  by (simp add: alert_malformed_def alert_skipped_def)

lemma alerts_try_raises:
  "isl (alerts_try ign payload) \<longleftrightarrow> list_payload_failure (alert_malformed ign) payload"
proof (cases payload)
  case (JArr xs)
  then show ?thesis by (simp add: alerts_try_def alerts_loop_raises)
next
  case (JObj kvs)
  then show ?thesis
    by (cases kvs) (simp_all add: alerts_try_def alerts_loop_raises strings_raise_in_alerts del: alerts_loop.simps)
next
  case (JStr s)
  then show ?thesis
    by (cases s) (simp_all add: alerts_try_def alerts_loop_raises strings_raise_in_alerts del: alerts_loop.simps)
qed (simp_all add: alerts_try_def)

lemma repl_body_raises: "isl (repl_body t x) \<longleftrightarrow> repl_malformed x"
proof (cases x "''name''" rule: subscript_cases)
  case (1 e)
  then show ?thesis by (simp add: repl_body_def repl_malformed_def field_is_str_def)
next
  case n: (2 nm)
  show ?thesis
  proof (cases x "''state''" rule: subscript_cases)
    case (1 e)
    with n show ?thesis by (simp add: repl_body_def repl_malformed_def)
  next
    case s: (2 obj)
    show ?thesis
    proof (cases obj "''state''" rule: subscript_cases)
      case (1 e)
      with n s show ?thesis by (simp add: repl_body_def repl_malformed_def field_is_str_def)
    next
      case c: (2 code)
      with n s str_operand_is_str[of nm] str_operand_is_str[of code] show ?thesis
        by (cases "str_operand nm"; cases "str_operand code")
          (auto simp: repl_body_def repl_malformed_def field_is_str_def Let_def)
    qed
  qed
qed

lemma repl_loop_raises: "isl (repl_loop t xs) \<longleftrightarrow> list_ex repl_malformed xs"
proof (induction xs arbitrary: t)
  case Nil
  show ?case by simp
next
  case (Cons x xs)
  show ?case
  proof (cases "repl_body t x")
    case (Inl e)
    with repl_body_raises[of t x] show ?thesis by simp
  next
    case (Inr t')
    with repl_body_raises[of t x] Cons.IH[of t'] show ?thesis by simp
  qed
qed

lemma strings_raise_in_repl: "repl_malformed (JStr k)"
  by (simp add: repl_malformed_def field_is_str_def)

lemma repl_try_raises:
  "isl (repl_try payload) \<longleftrightarrow> list_payload_failure repl_malformed payload"
proof (cases payload)
  case (JArr xs)
  then show ?thesis by (simp add: repl_try_def repl_loop_raises)
next
  case (JObj kvs)
  then show ?thesis
    by (cases kvs) (simp_all add: repl_try_def repl_loop_raises strings_raise_in_repl del: repl_loop.simps)
next
  case (JStr s)
  then show ?thesis
    by (cases s) (simp_all add: repl_try_def repl_loop_raises strings_raise_in_repl del: repl_loop.simps)
qed (simp_all add: repl_try_def)

lemma zpool_body_raises: "isl (zpool_body f t x) \<longleftrightarrow> pool_malformed f x"
proof (cases x "''name''" rule: subscript_cases)
  case (1 e)
  then show ?thesis by (simp add: zpool_body_def pool_malformed_def field_is_str_def)
next
  case n: (2 nm)
  show ?thesis
  proof (cases x "''status''" rule: subscript_cases)
    case (1 e)
    with n show ?thesis by (simp add: zpool_body_def pool_malformed_def)
  next
    case s: (2 st)
    show ?thesis
    proof (cases "str_operand nm")
      case (Inl e)
      with n s str_operand_is_str[of nm] show ?thesis
        by (simp add: zpool_body_def pool_malformed_def field_is_str_def)
    next
      case (Inr name)
      then have nm: "nm = JStr name" by (cases nm) simp_all
      with n s str_operand_is_str[of st] show ?thesis
        by (cases "str_operand st")
          (auto simp: zpool_body_def pool_malformed_def field_is_str_def Let_def
            eq_str_is_str lower_is_all)
    qed
  qed
qed

lemma zpool_loop_raises: "isl (zpool_loop f t xs) \<longleftrightarrow> list_ex (pool_malformed f) xs"
proof (induction xs arbitrary: t)
  case Nil
  show ?case by simp
next
  case (Cons x xs)
  show ?case
  proof (cases "zpool_body f t x")
    case (Inl e)
    with zpool_body_raises[of f t x] show ?thesis by simp
  next
    case (Inr t')
    with zpool_body_raises[of f t x] Cons.IH[of t'] show ?thesis by simp
  qed
qed

lemma strings_raise_in_zpool: "pool_malformed f (JStr k)"
  by (simp add: pool_malformed_def field_is_str_def)

lemma zpool_try_raises:
  "isl (zpool_try f payload) \<longleftrightarrow> list_payload_failure (pool_malformed f) payload"
proof (cases payload)
  case (JArr xs)
  then show ?thesis by (simp add: zpool_try_def zpool_loop_raises)
next
  case (JObj kvs)
  then show ?thesis
    by (cases kvs) (simp_all add: zpool_try_def zpool_loop_raises strings_raise_in_zpool del: zpool_loop.simps)
next
  case (JStr s)
  then show ?thesis
    by (cases s) (simp_all add: zpool_try_def zpool_loop_raises strings_raise_in_zpool del: zpool_loop.simps)
qed (simp_all add: zpool_try_def)

lemma transport_failure_exit:
  assumes "transport_failure (srv (make_request self resource requestType))"
  shows "\<exists>detail. do_request self srv exc resource requestType
           = Inl (Exit (''UNKNOWN - '' @ detail) 3)"
proof (cases "srv (make_request self resource requestType)")
  case (Raises d)
  then show ?thesis by (simp add: do_request_def)
next
  case (Response status body)
  show ?thesis
  proof (cases "400 \<le> status \<and> status < 600")
    case True
    with Response show ?thesis by (simp add: do_request_def raise_for_status_def)
  next
    case False
    with assms Response have "body = None" by (simp add: transport_failure_def)
    with False Response show ?thesis
      by (auto simp: do_request_def raise_for_status_def ok_def)
  qed
qed

lemma do_request_payload:
  assumes "srv (make_request self resource requestType) = Response status (Some payload)"
      and "\<not> (400 \<le> status \<and> status < 600)"
  shows "do_request self srv exc resource requestType = Inr payload"
  using assms by (auto simp: do_request_def raise_for_status_def ok_def)

lemma route_cases:
  assumes "route alert_type = Some (resource, requestType)"
  obtains "alert_type = ''alerts''" "resource = ''alert/list''" "requestType = GET_REQUEST"
    | "alert_type = ''repl''" "resource = ''replication''" "requestType = GET_REQUEST"
    | "alert_type = ''update''" "resource = ''update/check_available''" "requestType = POST_REQUEST"
    | "alert_type = ''zpool''" "resource = ''pool''" "requestType = GET_REQUEST"
  using assms by (auto simp: route_def split: if_splits)

lemma item_malformed_simps:
  "item_malformed self ''alerts'' = alert_malformed (ignore_dismissed_alerts self)"
  "item_malformed self ''repl'' = repl_malformed"
  "item_malformed self ''zpool'' = pool_malformed (zpool_name self)"
  by (rule ext, simp add: item_malformed_def)+

text \<open>
  C8, amended. For each of the four checks. Transport: when the request raises, the
  status is from 400 to 599 or the body does not decode, the line starts with UNKNOWN and
  the exit code is 3. Structure: when the decoded payload is null, a boolean, a number, a
  non-empty object or a non-empty string in place of the list, or a list with an item
  that is malformed for the check, wherever the item stands and whatever the other items
  are (for the update check: when the payload is no object or has no status), the line is
  the fixed UNKNOWN text of the check followed by the exception text, with exit code 3:
  never WARNING or CRITICAL, and nothing of the tally of the items read before.
\<close>

theorem failures_give_UNKNOWN:
  assumes "route alert_type = Some (resource, requestType)"
  shows "(transport_failure (srv (make_request self resource requestType)) \<longrightarrow>
            (\<exists>detail. handle_requested_alert_type self srv exc alert_type
                        = Exit (''UNKNOWN - '' @ detail) 3))
       \<and> (\<forall>status payload.
              srv (make_request self resource requestType) = Response status (Some payload)
              \<longrightarrow> \<not> (400 \<le> status \<and> status < 600)
              \<longrightarrow> structural_failure self alert_type payload
              \<longrightarrow> (\<exists>e. handle_requested_alert_type self srv exc alert_type
                        = Exit (''UNKNOWN - check_'' @ alert_type
                                @ ''() - Error when contacting TrueNAS server: '' @ exc e) 3))"
proof (intro conjI allI impI)
  assume "transport_failure (srv (make_request self resource requestType))"
  with transport_failure_exit[of srv self resource requestType exc] obtain detail
    where d: "do_request self srv exc resource requestType = Inl (Exit (''UNKNOWN - '' @ detail) 3)"
    by blast
  from assms show "\<exists>detail. handle_requested_alert_type self srv exc alert_type
      = Exit (''UNKNOWN - '' @ detail) 3"
  proof (cases rule: route_cases)
    case 1
    with d show ?thesis
      by (simp add: handle_requested_alert_type_def check_alerts_def get_request_def)
  next
    case 2
    with d show ?thesis
      by (simp add: handle_requested_alert_type_def check_repl_def get_request_def)
  next
    case 3
    with d show ?thesis
      by (simp add: handle_requested_alert_type_def check_update_def post_request_def)
  next
    case 4
    with d show ?thesis
      by (simp add: handle_requested_alert_type_def check_zpool_def get_request_def)
  qed
next
  fix status payload
  assume "srv (make_request self resource requestType) = Response status (Some payload)"
    and "\<not> (400 \<le> status \<and> status < 600)"
  then have p: "do_request self srv exc resource requestType = Inr payload"
    by (rule do_request_payload)
  assume r: "structural_failure self alert_type payload"
  from assms show "\<exists>e. handle_requested_alert_type self srv exc alert_type
      = Exit (''UNKNOWN - check_'' @ alert_type
              @ ''() - Error when contacting TrueNAS server: '' @ exc e) 3"
  proof (cases rule: route_cases)
    case 1
    with r have "isl (alerts_try (ignore_dismissed_alerts self) payload)"
      by (simp add: alerts_try_raises structural_failure_def item_malformed_simps)
    then obtain e where "alerts_try (ignore_dismissed_alerts self) payload = Inl e"
      by (auto simp: isl_def)
    with 1 p show ?thesis
      by (auto simp: handle_requested_alert_type_def check_alerts_def get_request_def)
  next
    case 2
    with r have "list_payload_failure repl_malformed payload"
      by (simp add: structural_failure_def item_malformed_simps)
    then have "isl (repl_try payload)"
      by (simp add: repl_try_raises)
    then obtain e where "repl_try payload = Inl e"
      by (auto simp: isl_def)
    with 2 p show ?thesis
      by (auto simp: handle_requested_alert_type_def check_repl_def get_request_def)
  next
    case 3
    with r have "isl (subscript payload ''status'')"
      by (simp add: structural_failure_def subscript_field)
    then obtain e where "subscript payload ''status'' = Inl e"
      by (auto simp: isl_def)
    with 3 p show ?thesis
      by (auto simp: handle_requested_alert_type_def check_update_def post_request_def)
  next
    case 4
    with r have "list_payload_failure (pool_malformed (zpool_name self)) payload"
      by (simp add: structural_failure_def item_malformed_simps)
    then have "isl (zpool_try (zpool_name self) payload)"
      by (simp add: zpool_try_raises)
    then obtain e where "zpool_try (zpool_name self) payload = Inl e"
      by (auto simp: isl_def)
    with 4 p show ?thesis
      by (auto simp: handle_requested_alert_type_def check_zpool_def get_request_def)
  qed
qed

text \<open>
  C8, as stated, fails at three inputs: an empty object in place of the list of alerts
  gives OK; a CRITICAL record with no \<^verbatim>\<open>dismissed\<close> field is counted when dismissed
  alerts are not ignored; a response with status 300 and a JSON body is classified.
\<close>

theorem failures_give_UNKNOWN_counterexample:
  "handle_requested_alert_type (probe False ''all'') (answers (JObj [])) no_detail ''alerts''
     = Exit ''OK - No problem alerts'' 0
   \<and> handle_requested_alert_type (probe False ''all'')
       (answers (JArr [JObj [(''level'', JStr ''CRITICAL''), (''formatted'', JStr ''disk'')]]))
       no_detail ''alerts''
     = Exit ''CRITICAL - (C) disk '' 2
   \<and> handle_requested_alert_type (probe False ''all'')
       (\<lambda>request. Response 300 (Some (JArr []))) no_detail ''alerts''
     = Exit ''OK - No problem alerts'' 0"
  by (simp add: handle_requested_alert_type_def check_alerts_def get_request_def
      do_request_def answers_def raise_for_status_def ok_def alerts_try_def alert_body_def
      skip_dismissed_def probe_def Startup_init_def replace_newline_def)

theorem failures_give_UNKNOWN_witness:
  "(\<exists>detail. handle_requested_alert_type (probe False ''all'')
        (\<lambda>request. Raises ''timed out'') no_detail ''repl''
      = Exit (''UNKNOWN - '' @ detail) 3)
   \<and> handle_requested_alert_type (probe False ''all'')
        (answers (JArr [JObj [(''level'', JStr ''CRITICAL''), (''formatted'', JStr ''disk'')],
                        JObj [(''level'', JStr ''WARNING'')]]))
        no_detail ''alerts''
      = Exit ''UNKNOWN - check_alerts() - Error when contacting TrueNAS server: '' 3
   \<and> handle_requested_alert_type (probe False ''all'') (answers JNull) no_detail ''zpool''
      = Exit ''UNKNOWN - check_zpool() - Error when contacting TrueNAS server: '' 3
   \<and> handle_requested_alert_type (probe False ''all'')
        (answers (JArr [JObj [(''name'', JStr ''r1''), (''state'', JStr ''FINISHED'')]]))
        no_detail ''repl''
      = Exit ''UNKNOWN - check_repl() - Error when contacting TrueNAS server: '' 3
   \<and> handle_requested_alert_type (probe False ''all'') (answers (JObj [])) no_detail ''update''
      = Exit ''UNKNOWN - check_update() - Error when contacting TrueNAS server: '' 3"
proof (intro conjI)
  have r: "route ''repl'' = Some (''replication'', GET_REQUEST)"
    by (simp add: route_def)
  have t: "transport_failure ((\<lambda>request. Raises ''timed out'')
      (make_request (probe False ''all'') ''replication'' GET_REQUEST))"
    by (simp add: transport_failure_def)
  from failures_give_UNKNOWN [OF r, THEN conjunct1, rule_format, OF t]
  show "\<exists>detail. handle_requested_alert_type (probe False ''all'')
        (\<lambda>request. Raises ''timed out'') no_detail ''repl''
      = Exit (''UNKNOWN - '' @ detail) 3" .
next
  have reply: "answers v request = Response 200 (Some v)" for v request
    by (simp add: answers_def)
  have status: "\<not> (400 \<le> (200::int) \<and> (200::int) < 600)"
    by simp
  note structural = failures_give_UNKNOWN [THEN conjunct2, rule_format, OF _ reply status,
      where exc = no_detail and self = "probe False ''all''"]
  have alerts: "route ''alerts'' = Some (''alert/list'', GET_REQUEST)"
    and repl: "route ''repl'' = Some (''replication'', GET_REQUEST)"
    and update: "route ''update'' = Some (''update/check_available'', POST_REQUEST)"
    and zpool: "route ''zpool'' = Some (''pool'', GET_REQUEST)"
    by (simp_all add: route_def)
  have "structural_failure (probe False ''all'') ''alerts''
      (JArr [JObj [(''level'', JStr ''CRITICAL''), (''formatted'', JStr ''disk'')],
             JObj [(''level'', JStr ''WARNING'')]])"
    by (simp add: structural_failure_def item_malformed_def alert_malformed_def
        alert_skipped_def field_is_str_def probe_def Startup_init_def)
  from structural [OF alerts this]
  show "handle_requested_alert_type (probe False ''all'')
        (answers (JArr [JObj [(''level'', JStr ''CRITICAL''), (''formatted'', JStr ''disk'')],
                        JObj [(''level'', JStr ''WARNING'')]]))
        no_detail ''alerts''
      = Exit ''UNKNOWN - check_alerts() - Error when contacting TrueNAS server: '' 3"
    by (simp add: no_detail_def)
  have "structural_failure (probe False ''all'') ''zpool'' JNull"
    by (simp add: structural_failure_def)
  from structural [OF zpool this]
  show "handle_requested_alert_type (probe False ''all'') (answers JNull) no_detail ''zpool''
      = Exit ''UNKNOWN - check_zpool() - Error when contacting TrueNAS server: '' 3"
    by (simp add: no_detail_def)
  have "structural_failure (probe False ''all'') ''repl''
      (JArr [JObj [(''name'', JStr ''r1''), (''state'', JStr ''FINISHED'')]])"
    by (simp add: structural_failure_def item_malformed_def repl_malformed_def field_is_str_def)
  from structural [OF repl this]
  show "handle_requested_alert_type (probe False ''all'')
        (answers (JArr [JObj [(''name'', JStr ''r1''), (''state'', JStr ''FINISHED'')]]))
        no_detail ''repl''
      = Exit ''UNKNOWN - check_repl() - Error when contacting TrueNAS server: '' 3"
    by (simp add: no_detail_def)
  have "structural_failure (probe False ''all'') ''update'' (JObj [])"
    by (simp add: structural_failure_def)
  from structural [OF update this]
  show "handle_requested_alert_type (probe False ''all'') (answers (JObj [])) no_detail ''update''
      = Exit ''UNKNOWN - check_update() - Error when contacting TrueNAS server: '' 3"
    by (simp add: no_detail_def)
qed


text \<open>
  The structural failures are all there are: a payload that is none of them never ends
  with exit code 3.
\<close>

lemma UNKNOWN_only_on_failure:
  assumes "route alert_type = Some (resource, requestType)"
      and "srv (make_request self resource requestType) = Response status (Some payload)"
      and "\<not> (400 \<le> status \<and> status < 600)"
      and "\<not> structural_failure self alert_type payload"
  shows "exit_code (handle_requested_alert_type self srv exc alert_type) \<noteq> 3"
proof -
  have p: "do_request self srv exc resource requestType = Inr payload"
    using assms(2,3) by (rule do_request_payload)
  from assms(1) show ?thesis
  proof (cases rule: route_cases)
    case 1
    with assms(4) have "\<not> isl (alerts_try (ignore_dismissed_alerts self) payload)"
      by (simp add: alerts_try_raises structural_failure_def item_malformed_simps)
    then obtain t where "alerts_try (ignore_dismissed_alerts self) payload = Inr t"
      by (cases "alerts_try (ignore_dismissed_alerts self) payload") simp_all
    with 1 p show ?thesis
      by (simp add: handle_requested_alert_type_def check_alerts_def get_request_def)
  next
    case 2
    with assms(4) have "\<not> list_payload_failure repl_malformed payload"
      by (simp add: structural_failure_def item_malformed_simps)
    then have "\<not> isl (repl_try payload)"
      by (simp add: repl_try_raises)
    then obtain t where "repl_try payload = Inr t"
      by (cases "repl_try payload") simp_all
    with 2 p show ?thesis
      by (simp add: handle_requested_alert_type_def check_repl_def get_request_def)
  next
    case 3
    with assms(4) obtain v where "field payload ''status'' = Some v"
      by (auto simp: structural_failure_def)
    then have "subscript payload ''status'' = Inr v"
      by (simp add: subscript_field)
    with 3 p show ?thesis
      by (simp add: handle_requested_alert_type_def check_update_def post_request_def Let_def
          split: sum.splits option.splits bool.splits)
  next
    case 4
    with assms(4) have "\<not> list_payload_failure (pool_malformed (zpool_name self)) payload"
      by (simp add: structural_failure_def item_malformed_simps)
    then have "\<not> isl (zpool_try (zpool_name self) payload)"
      by (simp add: zpool_try_raises)
    then obtain t where "zpool_try (zpool_name self) payload = Inr t"
      by (cases "zpool_try (zpool_name self) payload") simp_all
    with 4 p show ?thesis
      by (simp add: handle_requested_alert_type_def check_zpool_def get_request_def
          zpool_verdict_def Let_def)
  qed
qed

section \<open>The line and the exit code of the dispatcher\<close>

text \<open>
  C9. For a check type that is not one of the four, the exit code is 3 and the line is
  \<^verbatim>\<open>Unknown type: \<close> followed by the type: its first token is not one of the severity
  words.
\<close>

theorem unknown_type_prints_no_severity_word:
  "handle_requested_alert_type self srv exc ''disks'' = Exit ''Unknown type: disks'' 3
   \<and> first_token (stdout (handle_requested_alert_type self srv exc ''disks'')) = ''Unknown''
   \<and> ''Unknown'' \<notin> set severity_words"
  by (simp add: handle_requested_alert_type_def first_token_def isspace_def severity_words_def)

text \<open>
  A status that is not a string passes the \<^verbatim>\<open>try\<close> block of check\_update and fails in
  the concatenation after it: nothing is printed, and the interpreter exits with 1.
\<close>

lemma update_status_not_a_string_escapes:
  "check_update self (answers (JObj [(''status'', JNull)])) exc = Traceback TypeError"
  "stdout (check_update self (answers (JObj [(''status'', JNull)])) exc) = []"
  "exit_code (check_update self (answers (JObj [(''status'', JNull)])) exc) = 1"
  by (simp_all add: check_update_def post_request_answers)

text \<open>
  On every other path the exit code is one of 0, 1, 2, 3 and the first token of the line
  is the severity word of the exit code.
\<close>

lemma do_request_exit_code:
  "do_request self srv exc resource requestType = Inl out \<Longrightarrow>
     exit_code out = 3 \<and> first_token (stdout out) = ''UNKNOWN''"
  by (auto simp: do_request_def first_token_def isspace_def
      split: http_reply.splits option.splits if_splits)

lemma check_alerts_line:
  "(exit_code (check_alerts self srv exc) = 0 \<or> exit_code (check_alerts self srv exc) = 1
    \<or> exit_code (check_alerts self srv exc) = 2 \<or> exit_code (check_alerts self srv exc) = 3)
   \<and> first_token (stdout (check_alerts self srv exc))
       = severity_words ! nat (exit_code (check_alerts self srv exc))"
proof (cases "get_request self srv exc ''alert/list''")
  case (Inl out)
  with do_request_exit_code[of self srv exc "''alert/list''" GET_REQUEST out] show ?thesis
    by (simp add: check_alerts_def get_request_def severity_words_def)
next
  case (Inr v)
  then show ?thesis
    by (simp add: check_alerts_def severity_words_def first_token_def isspace_def
        split: sum.splits)
qed


lemma check_repl_line:
  "(exit_code (check_repl self srv exc) = 0 \<or> exit_code (check_repl self srv exc) = 1
    \<or> exit_code (check_repl self srv exc) = 3)
   \<and> first_token (stdout (check_repl self srv exc))
       = severity_words ! nat (exit_code (check_repl self srv exc))"
proof (cases "get_request self srv exc ''replication''")
  case (Inl out)
  with do_request_exit_code[of self srv exc "''replication''" GET_REQUEST out] show ?thesis
    by (simp add: check_repl_def get_request_def severity_words_def)
next
  case (Inr v)
  then show ?thesis
    by (simp add: check_repl_def severity_words_def first_token_def isspace_def
        split: sum.splits)
qed

lemma zpool_verdict_line:
  "(exit_code (zpool_verdict f t) = 0 \<or> exit_code (zpool_verdict f t) = 1
    \<or> exit_code (zpool_verdict f t) = 2)
   \<and> first_token (stdout (zpool_verdict f t))
       = severity_words ! nat (exit_code (zpool_verdict f t))"
  by (simp add: zpool_verdict_def Let_def severity_words_def first_token_def isspace_def)

lemma check_zpool_line:
  "(exit_code (check_zpool self srv exc) = 0 \<or> exit_code (check_zpool self srv exc) = 1
    \<or> exit_code (check_zpool self srv exc) = 2 \<or> exit_code (check_zpool self srv exc) = 3)
   \<and> first_token (stdout (check_zpool self srv exc))
       = severity_words ! nat (exit_code (check_zpool self srv exc))"
proof (cases "get_request self srv exc ''pool''")
  case (Inl out)
  with do_request_exit_code[of self srv exc "''pool''" GET_REQUEST out] show ?thesis
    by (simp add: check_zpool_def get_request_def severity_words_def)
next
  case (Inr v)
  show ?thesis
  proof (cases "zpool_try (zpool_name self) v")
    case (Inl e)
    with Inr show ?thesis
      by (simp add: check_zpool_def severity_words_def first_token_def isspace_def)
  next
    case tally: (Inr t)
    with Inr zpool_verdict_line[of "zpool_name self" t] show ?thesis
      by (auto simp: check_zpool_def)
  qed
qed

lemma check_update_line:
  "(exit_code (check_update self srv exc) = 0 \<or> exit_code (check_update self srv exc) = 1
    \<or> exit_code (check_update self srv exc) = 3)
   \<and> ((\<exists>e. check_update self srv exc = Traceback e)
        \<or> first_token (stdout (check_update self srv exc))
            = severity_words ! nat (exit_code (check_update self srv exc)))"
proof (cases "post_request self srv exc ''update/check_available''")
  case (Inl out)
  with do_request_exit_code[of self srv exc "''update/check_available''" POST_REQUEST out]
  show ?thesis
    by (simp add: check_update_def post_request_def severity_words_def)
next
  case (Inr v)
  then show ?thesis
    by (simp add: check_update_def Let_def severity_words_def first_token_def isspace_def
        split: sum.splits option.splits bool.splits)
qed

lemma exit_code_in_range:
  "exit_code (handle_requested_alert_type self srv exc alert_type) \<in> {0, 1, 2, 3}"
  using check_alerts_line[of self srv exc] check_repl_line[of self srv exc]
    check_update_line[of self srv exc] check_zpool_line[of self srv exc]
  by (auto simp: handle_requested_alert_type_def)

lemma severity_word_first_unless_escaped:
  assumes "route alert_type \<noteq> None"
  shows "(\<exists>e. handle_requested_alert_type self srv exc alert_type = Traceback e)
       \<or> first_token (stdout (handle_requested_alert_type self srv exc alert_type))
           = severity_words ! nat (exit_code (handle_requested_alert_type self srv exc alert_type))"
  using assms check_alerts_line[of self srv exc] check_repl_line[of self srv exc]
    check_update_line[of self srv exc] check_zpool_line[of self srv exc]
  by (auto simp: handle_requested_alert_type_def route_def split: if_splits)

end
